theory Spec2Isabelle
  imports Main
begin

section \<open>Entities\<close>

text \<open>
  A JavaScript \<^verbatim>\<open>Date\<close> is its number of milliseconds since the epoch, an
  \<^typ>\<open>int\<close>; \<^verbatim>\<open>a > b\<close> on two dates compares these numbers. Strings are
  \<^typ>\<open>string\<close>. A property that is \<^verbatim>\<open>undefined\<close> on an object (a column
  that was not selected, a field the caller left out) is \<open>None\<close>.
\<close>

type_synonym Date = int

datatype UserRole = STUDENT | INSTRUCTOR | ADMIN

datatype SocialProvider = GOOGLE | FACEBOOK | GITHUB

text \<open>\<^verbatim>\<open>new Error(message)\<close>.\<close>

datatype Error = Error string

text \<open>
  bcrypt (the bcryptjs package) is modelled symbolically: \<open>Bcrypt salt p\<close> is the hash
  string that \<^verbatim>\<open>bcrypt.hash(p, salt)\<close> returns, \<open>Plain s\<close> is the string \<open>s\<close> itself.
  \<^verbatim>\<open>bcrypt.compare(candidate, hash)\<close> holds exactly when \<open>hash\<close> was computed from
  \<open>candidate\<close>.
\<close>

datatype pwd = Plain string | Bcrypt nat pwd

fun bcrypt_compare :: "pwd \<Rightarrow> pwd \<Rightarrow> bool" where
  "bcrypt_compare candidate (Bcrypt salt p) = (p = candidate)"
| "bcrypt_compare candidate (Plain s) = False"

text \<open>JavaScript truthiness of a string: the empty string is falsy.\<close>

fun truthy_pwd :: "pwd \<Rightarrow> bool" where
  "truthy_pwd (Plain s) = (s \<noteq> [])"
| "truthy_pwd (Bcrypt salt p) = True"

text \<open>
  The \<^verbatim>\<open>User\<close> entity. \<open>password\<close> is \<open>None\<close> on an entity loaded without the
  column (\<^verbatim>\<open>select: false\<close>) and on the object \<^verbatim>\<open>toResponseObject\<close> returns.
\<close>

record User =
  id :: string
  username :: string
  email :: string
  firstName :: string
  lastName :: string
  password :: "pwd option"
  role :: UserRole
  isVerified :: bool
  isActive :: bool
  isLocked :: bool
  lastLogin :: "Date option"

definition hashPassword :: "nat \<Rightarrow> User \<Rightarrow> User" where
  "hashPassword salt u =
     (case User.password u of
        Some p \<Rightarrow> if truthy_pwd p then u\<lparr>User.password := Some (Bcrypt salt p)\<rparr> else u
      | None \<Rightarrow> u)"

text \<open>
  \<^verbatim>\<open>comparePassword\<close>: bcrypt rejects when the entity carries no password.
\<close>

definition comparePassword :: "User \<Rightarrow> pwd \<Rightarrow> Error + bool" where
  "comparePassword u candidatePassword =
     (case User.password u of
        None \<Rightarrow> Inl (Error ''Illegal arguments: string, undefined'')
      | Some h \<Rightarrow> Inr (bcrypt_compare candidatePassword h))"

definition toResponseObject :: "User \<Rightarrow> User" where
  "toResponseObject u = u\<lparr>User.password := None\<rparr>"

text \<open>
  The keys \<^verbatim>\<open>JSON.stringify\<close> writes for a user object: an \<^verbatim>\<open>undefined\<close>
  property is left out.
\<close>

definition user_json_keys :: "User \<Rightarrow> string list" where
  "user_json_keys u =
     [''id'', ''username'', ''email'', ''firstName'', ''lastName'']
     @ (case User.password u of None \<Rightarrow> [] | Some p \<Rightarrow> [''password''])
     @ [''role'', ''isVerified'', ''isActive'', ''isLocked'']
     @ (case User.lastLogin u of None \<Rightarrow> [] | Some d \<Rightarrow> [''lastLogin''])"

text \<open>
  The \<^verbatim>\<open>VerificationToken\<close> entity. The \<^verbatim>\<open>user\<close> relation is the row of the
  users table whose id is \<open>userId\<close>.
\<close>

record VerificationToken =
  id :: string
  token :: string
  expiresAt :: Date
  isUsed :: bool
  createdAt :: Date
  userId :: string

text \<open>
  \<^verbatim>\<open>generateToken\<close>, the \<^verbatim>\<open>BeforeInsert\<close> hook: \<open>bytes\<close> is
  \<^verbatim>\<open>crypto.randomBytes(32).toString('hex')\<close>, \<open>now\<close> the clock.
\<close>

definition generateToken :: "string \<Rightarrow> Date \<Rightarrow> VerificationToken \<Rightarrow> VerificationToken" where
  "generateToken bytes now t =
     t\<lparr>VerificationToken.token := bytes,
       VerificationToken.expiresAt := now + 24 * 60 * 60 * 1000\<rparr>"

definition isExpired :: "Date \<Rightarrow> VerificationToken \<Rightarrow> bool" where
  "isExpired now t = (now > VerificationToken.expiresAt t)"

definition isValid :: "Date \<Rightarrow> VerificationToken \<Rightarrow> bool" where
  "isValid now t = (\<not> VerificationToken.isUsed t \<and> \<not> isExpired now t)"

text \<open>
  \<^verbatim>\<open>tokenRepository.create({ user })\<close> followed by \<^verbatim>\<open>save\<close>: the row as it is
  inserted. The database generates \<open>id\<close>, \<open>isUsed\<close> takes its column default
  \<^verbatim>\<open>false\<close>, \<open>createdAt\<close> is the time of the insert.
\<close>

definition new_VerificationToken :: "string \<Rightarrow> string \<Rightarrow> Date \<Rightarrow> User \<Rightarrow> VerificationToken" where
  "new_VerificationToken uuid bytes now u =
     generateToken bytes now
       \<lparr>VerificationToken.id = uuid, token = [], expiresAt = 0, isUsed = False,
        createdAt = now, userId = User.id u\<rparr>"

text \<open>
  Modelled from the spec: the \<^verbatim>\<open>PasswordReset\<close> entity
  (\<^verbatim>\<open>entities/PasswordReset.ts\<close>), which the service imports and whose file is not
  among the sources. The spec gives a password-reset single-use token the same fields as
  a verification token, an expiry of one hour from creation, and the same validity rule
  (valid iff not used and not past \<open>expiresAt\<close>).
\<close>

record PasswordReset =
  id :: string
  token :: string
  expiresAt :: Date
  isUsed :: bool
  createdAt :: Date
  userId :: string

definition generateResetToken :: "string \<Rightarrow> Date \<Rightarrow> PasswordReset \<Rightarrow> PasswordReset" where
  "generateResetToken bytes now t =
     t\<lparr>PasswordReset.token := bytes,
       PasswordReset.expiresAt := now + 60 * 60 * 1000\<rparr>"

definition isExpiredReset :: "Date \<Rightarrow> PasswordReset \<Rightarrow> bool" where
  "isExpiredReset now t = (now > PasswordReset.expiresAt t)"

definition isValidReset :: "Date \<Rightarrow> PasswordReset \<Rightarrow> bool" where
  "isValidReset now t = (\<not> PasswordReset.isUsed t \<and> \<not> isExpiredReset now t)"

definition new_PasswordReset :: "string \<Rightarrow> string \<Rightarrow> Date \<Rightarrow> User \<Rightarrow> PasswordReset" where
  "new_PasswordReset uuid bytes now u =
     generateResetToken bytes now
       \<lparr>PasswordReset.id = uuid, token = [], expiresAt = 0, isUsed = False,
        createdAt = now, userId = User.id u\<rparr>"

text \<open>
  The \<^verbatim>\<open>SocialAccount\<close> entity. \<open>Profile\<close> is the provider's profile object with the
  properties the service reads; \<open>id\<close> and \<open>email\<close> are taken to be strings.
\<close>

record Profile =
  id :: string
  email :: string
  firstName :: "string option"
  given_name :: "string option"
  name :: "string option"
  lastName :: "string option"
  family_name :: "string option"

record SocialAccount =
  id :: string
  provider :: SocialProvider
  providerId :: string
  accessToken :: "string option"
  refreshToken :: "string option"
  profile :: Profile
  userId :: string

section \<open>Environment and per-request inputs\<close>

text \<open>
  \<^verbatim>\<open>process.env\<close>: a variable that is not set is \<open>None\<close>. The two token lifetimes
  (\<^verbatim>\<open>'1h'\<close>, \<^verbatim>\<open>'7d'\<close> in the source, read by the jsonwebtoken package) are kept in
  seconds, and \<^verbatim>\<open>JWT_EXPIRES_IN_SECONDS\<close> as the integer \<^verbatim>\<open>parseInt\<close> reads.
\<close>

record Env =
  JWT_SECRET :: "string option"
  JWT_REFRESH_SECRET :: "string option"
  JWT_EXPIRES_IN :: "nat option"
  JWT_REFRESH_EXPIRES_IN :: "nat option"
  JWT_EXPIRES_IN_SECONDS :: "int option"
  REQUIRE_EMAIL_VERIFICATION :: "string option"
  NODE_ENV :: "string option"

text \<open>\<^verbatim>\<open>v || d\<close> with a string default: \<open>d\<close> when \<open>v\<close> is undefined or empty.\<close>

definition or_default :: "string option \<Rightarrow> string \<Rightarrow> string" where
  "or_default v d = (case v of None \<Rightarrow> d | Some s \<Rightarrow> if s = [] then d else s)"

definition not_production :: "Env \<Rightarrow> bool" where
  "not_production env = (NODE_ENV env \<noteq> Some ''production'')"

text \<open>
  What a request reads from outside the program: the clock (one reading per request),
  the primary keys the database generates, the random values, and whether the mail
  transport accepts a message (\<open>Some m\<close>: \<^verbatim>\<open>sendMail\<close> rejects with message \<open>m\<close>).
\<close>

record Sys =
  clock :: Date
  uuid :: string
  uuid2 :: string
  randomBytes :: string
  salt1 :: nat
  salt2 :: nat
  random1000 :: nat
  randomPassword :: string
  sendMail_error :: "string option"

section \<open>JSON web tokens\<close>

text \<open>
  The jsonwebtoken package, by its contract: a token string is either the compact form
  \<^verbatim>\<open>jwt.sign\<close> produced from a payload under a key, or not a well-formed token.
  \<^verbatim>\<open>jwt.verify\<close> checks structure, then the signature, then the expiry
  (in whole seconds).
\<close>

record TokenPayload =
  id :: string
  email :: "string option"
  role :: "UserRole option"
  iat :: int
  exp :: int

datatype jwt = Signed string TokenPayload | Malformed string

datatype JwtError = TokenExpiredError | JsonWebTokenError

definition jwt_sign :: "string \<Rightarrow> string option \<Rightarrow> UserRole option \<Rightarrow> string \<Rightarrow> nat \<Rightarrow> Date \<Rightarrow> jwt" where
  "jwt_sign uid mail rl secret expiresIn now =
     Signed secret
       \<lparr>TokenPayload.id = uid, TokenPayload.email = mail, TokenPayload.role = rl,
        TokenPayload.iat = now div 1000, TokenPayload.exp = now div 1000 + int expiresIn\<rparr>"

definition jwt_verify :: "Date \<Rightarrow> jwt \<Rightarrow> string \<Rightarrow> JwtError + TokenPayload" where
  "jwt_verify now t secret =
     (case t of
        Malformed s \<Rightarrow> Inl JsonWebTokenError
      | Signed k p \<Rightarrow>
          if k \<noteq> secret then Inl JsonWebTokenError
          else if now div 1000 \<ge> TokenPayload.exp p then Inl TokenExpiredError
          else Inr p)"

record AuthTokens =
  accessToken :: jwt
  refreshToken :: jwt
  expiresIn :: int

definition generateTokens :: "Env \<Rightarrow> Date \<Rightarrow> User \<Rightarrow> AuthTokens" where
  "generateTokens env now user =
     \<lparr>AuthTokens.accessToken =
        jwt_sign (User.id user) (Some (User.email user)) (Some (User.role user))
          (or_default (JWT_SECRET env) ''your-secret-key'')
          (case JWT_EXPIRES_IN env of None \<Rightarrow> 3600 | Some n \<Rightarrow> n) now,
      AuthTokens.refreshToken =
        jwt_sign (User.id user) None None
          (or_default (JWT_REFRESH_SECRET env) ''refresh-secret'')
          (case JWT_REFRESH_EXPIRES_IN env of None \<Rightarrow> 604800 | Some n \<Rightarrow> n) now,
      AuthTokens.expiresIn =
        (case JWT_EXPIRES_IN_SECONDS env of None \<Rightarrow> 3600 | Some n \<Rightarrow> n)\<rparr>"

section \<open>The database and the mail collaborator\<close>

datatype Mail = VerificationEmail string string | PasswordResetEmail string string

record Store =
  users :: "User list"
  verification_tokens :: "VerificationToken list"
  password_resets :: "PasswordReset list"
  social_accounts :: "SocialAccount list"
  outbox :: "Mail list"

text \<open>
  Loading a user without \<^verbatim>\<open>addSelect('user.password')\<close> leaves the password column
  out (\<^verbatim>\<open>select: false\<close>).
\<close>

definition unselect_password :: "User \<Rightarrow> User" where
  "unselect_password u = u\<lparr>User.password := None\<rparr>"

definition findOne_user_by_email :: "Store \<Rightarrow> string \<Rightarrow> User option" where
  "findOne_user_by_email st e =
     map_option unselect_password (find (\<lambda>u. User.email u = e) (users st))"

definition findOne_user_by_username :: "Store \<Rightarrow> string \<Rightarrow> User option" where
  "findOne_user_by_username st n =
     map_option unselect_password (find (\<lambda>u. User.username u = n) (users st))"

definition findOne_user_by_id :: "Store \<Rightarrow> string \<Rightarrow> User option" where
  "findOne_user_by_id st i =
     map_option unselect_password (find (\<lambda>u. User.id u = i) (users st))"

definition getOne_user_with_password_by_email :: "Store \<Rightarrow> string \<Rightarrow> User option" where
  "getOne_user_with_password_by_email st e = find (\<lambda>u. User.email u = e) (users st)"

text \<open>
  \<^verbatim>\<open>userRepository.save\<close> of a new entity: the \<^verbatim>\<open>BeforeInsert\<close> hook hashes the
  password, and the insert fails on a primary key, email or username that is taken.
\<close>

definition insert_user :: "nat \<Rightarrow> User \<Rightarrow> Store \<Rightarrow> Error + (User \<times> Store)" where
  "insert_user salt u st =
     (let u' = hashPassword salt u in
      if list_ex (\<lambda>r. User.id r = User.id u' \<or> User.email r = User.email u'
                        \<or> User.username r = User.username u') (users st)
      then Inl (Error ''duplicate key value violates unique constraint'')
      else Inr (u', st\<lparr>users := users st @ [u']\<rparr>))"

text \<open>
  \<^verbatim>\<open>userRepository.save\<close> of a loaded entity: a property that is \<^verbatim>\<open>undefined\<close>
  leaves its column as stored; when nothing differs from the stored row nothing is
  written and no hook runs; otherwise the \<^verbatim>\<open>BeforeUpdate\<close> hook runs (hashing the
  password property when the entity carries one) and the row is replaced. The entity
  object is the one the hook changed. Every call follows the load of the entity's row,
  so the row is there; the first case is for totality only.
\<close>

definition merge_user :: "User \<Rightarrow> User \<Rightarrow> User" where
  "merge_user row u =
     (case User.password u of None \<Rightarrow> u\<lparr>User.password := User.password row\<rparr> | Some p \<Rightarrow> u)"

definition update_user :: "nat \<Rightarrow> User \<Rightarrow> Store \<Rightarrow> User \<times> Store" where
  "update_user salt u st =
     (case find (\<lambda>r. User.id r = User.id u) (users st) of
        None \<Rightarrow> (u, st)
      | Some row \<Rightarrow>
          if merge_user row u = row then (u, st)
          else (let u' = hashPassword salt u in
                (u', st\<lparr>users := map (\<lambda>r. if User.id r = User.id u then merge_user row u' else r)
                                     (users st)\<rparr>)))"

definition sendVerificationEmail :: "Sys \<Rightarrow> Store \<Rightarrow> User \<Rightarrow> string \<Rightarrow> Error + Store" where
  "sendVerificationEmail sys st user tok =
     (case sendMail_error sys of
        None \<Rightarrow> Inr (st\<lparr>outbox := outbox st @ [VerificationEmail (User.email user) tok]\<rparr>)
      | Some m \<Rightarrow> Inl (Error (''Failed to send email: '' @ m)))"

definition sendPasswordResetEmail :: "Sys \<Rightarrow> Store \<Rightarrow> User \<Rightarrow> string \<Rightarrow> Error + Store" where
  "sendPasswordResetEmail sys st user tok =
     (case sendMail_error sys of
        None \<Rightarrow> Inr (st\<lparr>outbox := outbox st @ [PasswordResetEmail (User.email user) tok]\<rparr>)
      | Some m \<Rightarrow> Inl (Error (''Failed to send email: '' @ m)))"

section \<open>AuthService\<close>

text \<open>
  Every operation takes the store and returns its outcome with the store it leaves: a
  \<^verbatim>\<open>throw\<close> is \<open>Inl\<close>, and what was written before the throw stays written (the
  source opens no transaction).
\<close>

record RegisterUserDto =
  username :: string
  email :: string
  password :: string
  firstName :: string
  lastName :: string

record LoginUserDto =
  email :: string
  password :: string

record ForgotPasswordDto =
  email :: string

record ResetPasswordDto =
  token :: string
  password :: string
  confirmPassword :: string

record SocialAuthDto =
  provider :: SocialProvider
  token :: string
  profile :: "Profile option"

definition register :: "Env \<Rightarrow> Sys \<Rightarrow> Store \<Rightarrow> RegisterUserDto \<Rightarrow> (Error + (User \<times> AuthTokens)) \<times> Store" where
  "register env sys st userData =
     (if findOne_user_by_email st (RegisterUserDto.email userData) \<noteq> None
      then (Inl (Error ''Email already exists''), st)
      else if findOne_user_by_username st (RegisterUserDto.username userData) \<noteq> None
      then (Inl (Error ''Username already exists''), st)
      else
        (case insert_user (salt1 sys)
                \<lparr>User.id = uuid sys,
                 User.username = RegisterUserDto.username userData,
                 User.email = RegisterUserDto.email userData,
                 User.firstName = RegisterUserDto.firstName userData,
                 User.lastName = RegisterUserDto.lastName userData,
                 User.password = Some (Plain (RegisterUserDto.password userData)),
                 User.role = STUDENT,
                 User.isVerified = False,
                 User.isActive = True,
                 User.isLocked = False,
                 User.lastLogin = None\<rparr> st of
           Inl e \<Rightarrow> (Inl e, st)
         | Inr (user, st1) \<Rightarrow>
             (let verificationToken =
                    new_VerificationToken (uuid2 sys) (randomBytes sys) (clock sys) user;
                  st2 = st1\<lparr>verification_tokens := verification_tokens st1 @ [verificationToken]\<rparr>
              in case sendVerificationEmail sys st2 user (VerificationToken.token verificationToken) of
                   Inl e \<Rightarrow> (Inl e, st2)
                 | Inr st3 \<Rightarrow> (Inr (user, generateTokens env (clock sys) user), st3))))"

definition login :: "Env \<Rightarrow> Sys \<Rightarrow> Store \<Rightarrow> LoginUserDto \<Rightarrow> (Error + (User \<times> AuthTokens)) \<times> Store" where
  "login env sys st loginData =
     (case getOne_user_with_password_by_email st (LoginUserDto.email loginData) of
        None \<Rightarrow> (Inl (Error ''Invalid credentials''), st)
      | Some user \<Rightarrow>
          if User.isLocked user
          then (Inl (Error ''Your account has been locked. Please contact support.''), st)
          else if \<not> User.isActive user
          then (Inl (Error ''Your account is inactive. Please contact support.''), st)
          else if REQUIRE_EMAIL_VERIFICATION env = Some ''true'' \<and> \<not> User.isVerified user
          then (Inl (Error ''Please verify your email before logging in''), st)
          else
            (case comparePassword user (Plain (LoginUserDto.password loginData)) of
               Inl e \<Rightarrow> (Inl e, st)
             | Inr isPasswordValid \<Rightarrow>
                 if \<not> isPasswordValid then (Inl (Error ''Invalid credentials''), st)
                 else
                   (case update_user (salt1 sys) (user\<lparr>User.lastLogin := Some (clock sys)\<rparr>) st of
                      (user', st') \<Rightarrow>
                        (Inr (toResponseObject user', generateTokens env (clock sys) user'), st'))))"

definition mark_verification_token_used :: "VerificationToken \<Rightarrow> Store \<Rightarrow> Store" where
  "mark_verification_token_used vt st =
     st\<lparr>verification_tokens :=
          map (\<lambda>t. if VerificationToken.id t = VerificationToken.id vt
                    then vt\<lparr>VerificationToken.isUsed := True\<rparr> else t)
              (verification_tokens st)\<rparr>"

definition verifyEmail :: "Sys \<Rightarrow> Store \<Rightarrow> string \<Rightarrow> (Error + string) \<times> Store" where
  "verifyEmail sys st tok =
     (case find (\<lambda>t. VerificationToken.token t = tok) (verification_tokens st) of
        None \<Rightarrow> (Inl (Error ''Invalid verification token''), st)
      | Some verificationToken \<Rightarrow>
          if \<not> isValid (clock sys) verificationToken
          then (Inl (Error ''Verification token has expired''), st)
          else
            (case findOne_user_by_id st (VerificationToken.userId verificationToken) of
               None \<Rightarrow> (Inl (Error ''Cannot set properties of null''), st)
             | Some user \<Rightarrow>
                 (case update_user (salt1 sys) (user\<lparr>User.isVerified := True\<rparr>) st of
                    (user', st1) \<Rightarrow>
                      (Inr ''Email verified successfully'',
                       mark_verification_token_used verificationToken st1))))"

definition resendVerificationEmail :: "Sys \<Rightarrow> Store \<Rightarrow> string \<Rightarrow> (Error + string) \<times> Store" where
  "resendVerificationEmail sys st mail =
     (case findOne_user_by_email st mail of
        None \<Rightarrow> (Inl (Error ''User not found''), st)
      | Some user \<Rightarrow>
          if User.isVerified user then (Inl (Error ''Email is already verified''), st)
          else
            (let verificationToken =
                   new_VerificationToken (uuid2 sys) (randomBytes sys) (clock sys) user;
                 st1 = st\<lparr>verification_tokens := verification_tokens st @ [verificationToken]\<rparr>
             in case sendVerificationEmail sys st1 user (VerificationToken.token verificationToken) of
                  Inl e \<Rightarrow> (Inl e, st1)
                | Inr st2 \<Rightarrow> (Inr ''Verification email sent'', st2)))"

definition forgotPassword :: "Sys \<Rightarrow> Store \<Rightarrow> ForgotPasswordDto \<Rightarrow> (Error + string) \<times> Store" where
  "forgotPassword sys st forgotPasswordDto =
     (case findOne_user_by_email st (ForgotPasswordDto.email forgotPasswordDto) of
        None \<Rightarrow> (Inr ''If your email exists, you will receive a password reset link'', st)
      | Some user \<Rightarrow>
          (let passwordReset = new_PasswordReset (uuid2 sys) (randomBytes sys) (clock sys) user;
               st1 = st\<lparr>password_resets := password_resets st @ [passwordReset]\<rparr>
           in case sendPasswordResetEmail sys st1 user (PasswordReset.token passwordReset) of
                Inl e \<Rightarrow> (Inl e, st1)
              | Inr st2 \<Rightarrow> (Inr ''Password reset instructions sent to your email'', st2)))"

definition mark_password_reset_used :: "PasswordReset \<Rightarrow> Store \<Rightarrow> Store" where
  "mark_password_reset_used pr st =
     st\<lparr>password_resets :=
          map (\<lambda>t. if PasswordReset.id t = PasswordReset.id pr
                    then pr\<lparr>PasswordReset.isUsed := True\<rparr> else t)
              (password_resets st)\<rparr>"

text \<open>
  \<^verbatim>\<open>resetPassword\<close>, with \<^verbatim>\<open>passwordReset.isValid()\<close> as the parameter \<open>valid\<close>
  (the method is of the entity whose file is not among the sources): \<open>valid now t\<close> is
  what the method answers for the token \<open>t\<close> at time \<open>now\<close>.
\<close>

definition resetPassword_with ::
  "(Date \<Rightarrow> PasswordReset \<Rightarrow> bool) \<Rightarrow> Sys \<Rightarrow> Store \<Rightarrow> ResetPasswordDto
     \<Rightarrow> (Error + string) \<times> Store" where
  "resetPassword_with valid sys st resetPasswordDto =
     (if ResetPasswordDto.password resetPasswordDto \<noteq> ResetPasswordDto.confirmPassword resetPasswordDto
      then (Inl (Error ''Passwords do not match''), st)
      else
        (case find (\<lambda>t. PasswordReset.token t = ResetPasswordDto.token resetPasswordDto)
                (password_resets st) of
           None \<Rightarrow> (Inl (Error ''Invalid password reset token''), st)
         | Some passwordReset \<Rightarrow>
             if \<not> valid (clock sys) passwordReset
             then (Inl (Error ''Password reset token has expired''), st)
             else
               (case findOne_user_by_id st (PasswordReset.userId passwordReset) of
                  None \<Rightarrow> (Inl (Error ''Cannot set properties of null''), st)
                | Some user \<Rightarrow>
                    (case update_user (salt1 sys)
                            (user\<lparr>User.password :=
                                    Some (Plain (ResetPasswordDto.password resetPasswordDto))\<rparr>) st of
                       (user', st1) \<Rightarrow>
                         (Inr ''Password reset successful'',
                          mark_password_reset_used passwordReset st1)))))"

text \<open>\<^verbatim>\<open>resetPassword\<close> with the validity rule of the spec for \<^verbatim>\<open>isValid()\<close>.\<close>

definition resetPassword :: "Sys \<Rightarrow> Store \<Rightarrow> ResetPasswordDto \<Rightarrow> (Error + string) \<times> Store" where
  "resetPassword = resetPassword_with isValidReset"

text \<open>Decimal rendering of a number, as \<^verbatim>\<open>String(n)\<close> and string concatenation do.\<close>

fun show_nat :: "nat \<Rightarrow> string" where
  "show_nat n =
     (if n < 10 then [char_of (48 + n)]
      else show_nat (n div 10) @ [char_of (48 + n mod 10)])"

definition show_int :: "int \<Rightarrow> string" where
  "show_int i = (if i < 0 then CHR ''-'' # show_nat (nat (- i)) else show_nat (nat i))"

text \<open>\<^verbatim>\<open>a || b\<close> on optional strings: \<open>a\<close> when it is a non-empty string.\<close>

definition js_or :: "string option \<Rightarrow> string option \<Rightarrow> string option" where
  "js_or a b = (case a of Some s \<Rightarrow> if s = [] then b else Some s | None \<Rightarrow> b)"

text \<open>\<^verbatim>\<open>s.split(c)[0]\<close> and \<^verbatim>\<open>s.split(c).slice(1).join(c)\<close>.\<close>

definition split_first :: "char \<Rightarrow> string \<Rightarrow> string" where
  "split_first c s = takeWhile (\<lambda>x. x \<noteq> c) s"

definition split_rest :: "char \<Rightarrow> string \<Rightarrow> string" where
  "split_rest c s = drop 1 (dropWhile (\<lambda>x. x \<noteq> c) s)"

definition new_social_user :: "Sys \<Rightarrow> Profile \<Rightarrow> User" where
  "new_social_user sys prof =
     \<lparr>User.id = uuid sys,
      User.username = split_first (CHR ''@'') (Profile.email prof) @ show_nat (random1000 sys),
      User.email = Profile.email prof,
      User.firstName =
        or_default (js_or (js_or (Profile.firstName prof) (Profile.given_name prof))
                      (map_option (split_first (CHR '' '')) (Profile.name prof)))
                   ''User'',
      User.lastName =
        or_default (js_or (js_or (Profile.lastName prof) (Profile.family_name prof))
                      (map_option (split_rest (CHR '' '')) (Profile.name prof)))
                   (show_int (clock sys)),
      User.password = Some (Plain (randomPassword sys)),
      User.role = STUDENT,
      User.isVerified = True,
      User.isActive = True,
      User.isLocked = False,
      User.lastLogin = None\<rparr>"

definition new_SocialAccount :: "Sys \<Rightarrow> SocialAuthDto \<Rightarrow> Profile \<Rightarrow> User \<Rightarrow> SocialAccount" where
  "new_SocialAccount sys dto prof user =
     \<lparr>SocialAccount.id = uuid2 sys,
      SocialAccount.provider = SocialAuthDto.provider dto,
      SocialAccount.providerId = Profile.id prof,
      SocialAccount.accessToken = Some (SocialAuthDto.token dto),
      SocialAccount.refreshToken = None,
      SocialAccount.profile = prof,
      SocialAccount.userId = User.id user\<rparr>"

text \<open>
  The end of \<^verbatim>\<open>socialAuth\<close>, common to its branches: set \<^verbatim>\<open>lastLogin\<close>, save
  the user, sign the tokens.
\<close>

definition socialAuth_finish ::
  "Env \<Rightarrow> Sys \<Rightarrow> Store \<Rightarrow> User \<Rightarrow> bool \<Rightarrow> (Error + (User \<times> AuthTokens \<times> bool)) \<times> Store" where
  "socialAuth_finish env sys st user isNewUser =
     (case update_user (salt2 sys) (user\<lparr>User.lastLogin := Some (clock sys)\<rparr>) st of
        (user', st') \<Rightarrow>
          (Inr (toResponseObject user', generateTokens env (clock sys) user', isNewUser), st'))"

definition socialAuth ::
  "Env \<Rightarrow> Sys \<Rightarrow> Store \<Rightarrow> SocialAuthDto \<Rightarrow> (Error + (User \<times> AuthTokens \<times> bool)) \<times> Store" where
  "socialAuth env sys st socialAuthDto =
     (case SocialAuthDto.profile socialAuthDto of
        None \<Rightarrow> (Inl (Error ''Invalid social profile data''), st)
      | Some prof \<Rightarrow>
          (case find (\<lambda>a. SocialAccount.provider a = SocialAuthDto.provider socialAuthDto
                           \<and> SocialAccount.providerId a = Profile.id prof)
                  (social_accounts st) of
             Some socialAccount \<Rightarrow>
               (case findOne_user_by_id st (SocialAccount.userId socialAccount) of
                  None \<Rightarrow> (Inl (Error ''Cannot set properties of null''), st)
                | Some user \<Rightarrow> socialAuth_finish env sys st user False)
           | None \<Rightarrow>
               (case findOne_user_by_email st (Profile.email prof) of
                  Some user \<Rightarrow>
                    (case update_user (salt1 sys) user st of
                       (user1, st1) \<Rightarrow>
                         socialAuth_finish env sys
                           (st1\<lparr>social_accounts := social_accounts st1
                                   @ [new_SocialAccount sys socialAuthDto prof user1]\<rparr>)
                           user1 False)
                | None \<Rightarrow>
                    (case insert_user (salt1 sys) (new_social_user sys prof) st of
                       Inl e \<Rightarrow> (Inl e, st)
                     | Inr (user1, st1) \<Rightarrow>
                         socialAuth_finish env sys
                           (st1\<lparr>social_accounts := social_accounts st1
                                   @ [new_SocialAccount sys socialAuthDto prof user1]\<rparr>)
                           user1 True))))"

text \<open>
  \<^verbatim>\<open>refreshTokens\<close>: \<open>refreshTokens_try\<close> is the body of the \<^verbatim>\<open>try\<close> block, with
  the error each step throws; the \<^verbatim>\<open>catch\<close> replaces whatever was thrown.
\<close>

datatype RefreshFailure = JwtFailure JwtError | UserNotFound

definition refreshTokens_try :: "Env \<Rightarrow> Sys \<Rightarrow> Store \<Rightarrow> jwt \<Rightarrow> RefreshFailure + AuthTokens" where
  "refreshTokens_try env sys st rt =
     (case jwt_verify (clock sys) rt (or_default (JWT_REFRESH_SECRET env) ''refresh-secret'') of
        Inl e \<Rightarrow> Inl (JwtFailure e)
      | Inr decoded \<Rightarrow>
          (case findOne_user_by_id st (TokenPayload.id decoded) of
             None \<Rightarrow> Inl UserNotFound
           | Some user \<Rightarrow> Inr (generateTokens env (clock sys) user)))"

definition refreshTokens :: "Env \<Rightarrow> Sys \<Rightarrow> Store \<Rightarrow> jwt \<Rightarrow> Error + AuthTokens" where
  "refreshTokens env sys st rt =
     (case refreshTokens_try env sys st rt of
        Inl e \<Rightarrow> Inl (Error ''Invalid refresh token'')
      | Inr tokens \<Rightarrow> Inr tokens)"

section \<open>AuthController and the authentication middleware\<close>

text \<open>
  A response is its status and its JSON body. \<open>Message m e\<close> is
  \<^verbatim>\<open>{ message: m, error: ... }\<close>, where \<open>e\<close> says whether the \<^verbatim>\<open>error\<close> key is
  written (\<^verbatim>\<open>undefined\<close> is not).
\<close>

datatype Body =
    ValidationErrors
  | Message string bool
  | AuthResult string User AuthTokens
  | SocialResult string User AuthTokens bool
  | Tokens AuthTokens
  | UserObject User

record Response =
  status :: nat
  body :: Body

definition body_keys :: "Body \<Rightarrow> string list" where
  "body_keys b =
     (case b of
        ValidationErrors \<Rightarrow> [''errors'']
      | Message m e \<Rightarrow> ''message'' # (if e then [''error''] else [])
      | AuthResult m u t \<Rightarrow> [''message'', ''user'', ''tokens'']
      | SocialResult m u t n \<Rightarrow> [''message'', ''user'', ''tokens'', ''isNewUser'']
      | Tokens t \<Rightarrow> [''accessToken'', ''refreshToken'', ''expiresIn'']
      | UserObject u \<Rightarrow> user_json_keys u)"

text \<open>The user object a response body carries, if it carries one.\<close>

definition body_user :: "Body \<Rightarrow> User option" where
  "body_user b =
     (case b of
        AuthResult m u t \<Rightarrow> Some u
      | SocialResult m u t n \<Rightarrow> Some u
      | UserObject u \<Rightarrow> Some u
      | _ \<Rightarrow> None)"

text \<open>
  \<^verbatim>\<open>{ message: error.message || fallback, error: NODE_ENV !== 'production' ? error : undefined }\<close>
  with the given status.
\<close>

definition error_response :: "Env \<Rightarrow> nat \<Rightarrow> Error \<Rightarrow> string \<Rightarrow> Response" where
  "error_response env code e fallback =
     (case e of Error m \<Rightarrow>
        \<lparr>status = code, body = Message (if m = [] then fallback else m) (not_production env)\<rparr>)"

definition validation_failed :: Response where
  "validation_failed = \<lparr>status = 400, body = ValidationErrors\<rparr>"

text \<open>
  The validators. \<open>isEmail\<close> (the validator package) is a parameter of the endpoints
  that use it. The password pattern is
  \<^verbatim>\<open>/^(?=.*[a-z])(?=.*[A-Z])(?=.*\d)(?=.*[@$!%*?&])[A-Za-z\d@$!%*?&]/\<close>: each
  lookahead finds its character on the first line (\<^verbatim>\<open>.\<close> matches no line
  terminator), and the first character is of the class.
\<close>

definition is_lower :: "char \<Rightarrow> bool" where
  "is_lower c = ((of_char (CHR ''a'') :: nat) \<le> of_char c \<and> (of_char c :: nat) \<le> of_char (CHR ''z''))"

definition is_upper :: "char \<Rightarrow> bool" where
  "is_upper c = ((of_char (CHR ''A'') :: nat) \<le> of_char c \<and> (of_char c :: nat) \<le> of_char (CHR ''Z''))"

definition is_digit :: "char \<Rightarrow> bool" where
  "is_digit c = ((of_char (CHR ''0'') :: nat) \<le> of_char c \<and> (of_char c :: nat) \<le> of_char (CHR ''9''))"

definition is_symbol :: "char \<Rightarrow> bool" where
  "is_symbol c = (c \<in> set ''@$!%*?&'')"

definition first_line :: "string \<Rightarrow> string" where
  "first_line s = takeWhile (\<lambda>c. c \<noteq> CHR 0x0A \<and> c \<noteq> CHR 0x0D) s"

definition matches_password_pattern :: "string \<Rightarrow> bool" where
  "matches_password_pattern s =
     (list_ex is_lower (first_line s) \<and> list_ex is_upper (first_line s)
      \<and> list_ex is_digit (first_line s) \<and> list_ex is_symbol (first_line s)
      \<and> (case s of [] \<Rightarrow> False
          | c # cs \<Rightarrow> is_lower c \<or> is_upper c \<or> is_digit c \<or> is_symbol c))"

definition valid_password :: "string \<Rightarrow> bool" where
  "valid_password s = (length s \<ge> 8 \<and> matches_password_pattern s)"

definition controller_register ::
  "(string \<Rightarrow> bool) \<Rightarrow> Env \<Rightarrow> Sys \<Rightarrow> Store \<Rightarrow> RegisterUserDto \<Rightarrow> Response \<times> Store" where
  "controller_register isEmail env sys st userData =
     (if \<not> (3 \<le> length (RegisterUserDto.username userData)
             \<and> length (RegisterUserDto.username userData) \<le> 20
             \<and> isEmail (RegisterUserDto.email userData)
             \<and> valid_password (RegisterUserDto.password userData)
             \<and> 1 \<le> length (RegisterUserDto.firstName userData)
             \<and> 1 \<le> length (RegisterUserDto.lastName userData))
      then (validation_failed, st)
      else
        (case register env sys st userData of
           (Inr (user, tokens), st') \<Rightarrow>
             (\<lparr>status = 201,
               body = AuthResult ''User registered successfully'' (toResponseObject user) tokens\<rparr>, st')
         | (Inl e, st') \<Rightarrow> (error_response env 400 e ''Registration failed'', st')))"

definition controller_login ::
  "(string \<Rightarrow> bool) \<Rightarrow> Env \<Rightarrow> Sys \<Rightarrow> Store \<Rightarrow> LoginUserDto \<Rightarrow> Response \<times> Store" where
  "controller_login isEmail env sys st loginData =
     (if \<not> isEmail (LoginUserDto.email loginData) then (validation_failed, st)
      else
        (case login env sys st loginData of
           (Inr (user, tokens), st') \<Rightarrow>
             (\<lparr>status = 200, body = AuthResult ''Login successful'' user tokens\<rparr>, st')
         | (Inl e, st') \<Rightarrow>
             (\<lparr>status = 401, body = Message ''Invalid credentials'' False\<rparr>, st')))"

definition controller_verifyEmail :: "Env \<Rightarrow> Sys \<Rightarrow> Store \<Rightarrow> string \<Rightarrow> Response \<times> Store" where
  "controller_verifyEmail env sys st tok =
     (if \<not> length tok \<ge> 10 then (validation_failed, st)
      else
        (case verifyEmail sys st tok of
           (Inr m, st') \<Rightarrow> (\<lparr>status = 200, body = Message m False\<rparr>, st')
         | (Inl e, st') \<Rightarrow> (error_response env 400 e ''Email verification failed'', st')))"

definition controller_resendVerification ::
  "(string \<Rightarrow> bool) \<Rightarrow> Env \<Rightarrow> Sys \<Rightarrow> Store \<Rightarrow> string \<Rightarrow> Response \<times> Store" where
  "controller_resendVerification isEmail env sys st mail =
     (if \<not> isEmail mail then (validation_failed, st)
      else
        (case resendVerificationEmail sys st mail of
           (Inr m, st') \<Rightarrow> (\<lparr>status = 200, body = Message m False\<rparr>, st')
         | (Inl e, st') \<Rightarrow>
             (error_response env 400 e ''Failed to resend verification email'', st')))"

definition controller_forgotPassword ::
  "(string \<Rightarrow> bool) \<Rightarrow> Env \<Rightarrow> Sys \<Rightarrow> Store \<Rightarrow> ForgotPasswordDto \<Rightarrow> Response \<times> Store" where
  "controller_forgotPassword isEmail env sys st forgotPasswordDto =
     (if \<not> isEmail (ForgotPasswordDto.email forgotPasswordDto) then (validation_failed, st)
      else
        (case forgotPassword sys st forgotPasswordDto of
           (Inr m, st') \<Rightarrow> (\<lparr>status = 200, body = Message m False\<rparr>, st')
         | (Inl e, st') \<Rightarrow>
             (\<lparr>status = 200,
               body = Message ''If your email exists, you will receive a password reset link''
                        False\<rparr>, st')))"

text \<open>
  The endpoint, with \<^verbatim>\<open>passwordReset.isValid()\<close> as the parameter \<open>valid\<close> of the
  service it calls.
\<close>

definition controller_resetPassword_with ::
  "(Date \<Rightarrow> PasswordReset \<Rightarrow> bool) \<Rightarrow> Env \<Rightarrow> Sys \<Rightarrow> Store \<Rightarrow> ResetPasswordDto
     \<Rightarrow> Response \<times> Store" where
  "controller_resetPassword_with valid env sys st resetPasswordDto =
     (if \<not> (length (ResetPasswordDto.token resetPasswordDto) \<ge> 10
             \<and> valid_password (ResetPasswordDto.password resetPasswordDto)
             \<and> ResetPasswordDto.confirmPassword resetPasswordDto
                 = ResetPasswordDto.password resetPasswordDto)
      then (validation_failed, st)
      else
        (case resetPassword_with valid sys st resetPasswordDto of
           (Inr m, st') \<Rightarrow> (\<lparr>status = 200, body = Message m False\<rparr>, st')
         | (Inl e, st') \<Rightarrow> (error_response env 400 e ''Password reset failed'', st')))"

definition controller_resetPassword ::
  "Env \<Rightarrow> Sys \<Rightarrow> Store \<Rightarrow> ResetPasswordDto \<Rightarrow> Response \<times> Store" where
  "controller_resetPassword = controller_resetPassword_with isValidReset"

definition controller_refreshToken :: "Env \<Rightarrow> Sys \<Rightarrow> Store \<Rightarrow> jwt \<Rightarrow> Response" where
  "controller_refreshToken env sys st rt =
     (case refreshTokens env sys st rt of
        Inr tokens \<Rightarrow> \<lparr>status = 200, body = Tokens tokens\<rparr>
      | Inl e \<Rightarrow> \<lparr>status = 401, body = Message ''Invalid refresh token'' False\<rparr>)"

text \<open>The \<^verbatim>\<open>:provider\<close> path parameter against the values of \<^verbatim>\<open>SocialProvider\<close>.\<close>

definition provider_of_param :: "string \<Rightarrow> SocialProvider option" where
  "provider_of_param s =
     (if s = ''google'' then Some GOOGLE
      else if s = ''facebook'' then Some FACEBOOK
      else if s = ''github'' then Some GITHUB
      else None)"

definition controller_socialAuth ::
  "Env \<Rightarrow> Sys \<Rightarrow> Store \<Rightarrow> string \<Rightarrow> string \<Rightarrow> Profile option \<Rightarrow> Response \<times> Store" where
  "controller_socialAuth env sys st param tok prof =
     (case provider_of_param param of
        None \<Rightarrow> (\<lparr>status = 400, body = Message ''Invalid provider'' False\<rparr>, st)
      | Some p \<Rightarrow>
          (case socialAuth env sys st
                  \<lparr>SocialAuthDto.provider = p, SocialAuthDto.token = tok,
                   SocialAuthDto.profile = prof\<rparr> of
             (Inr (user, tokens, isNewUser), st') \<Rightarrow>
               (\<lparr>status = 200,
                 body = SocialResult ''Social authentication successful'' user tokens isNewUser\<rparr>,
                st')
           | (Inl e, st') \<Rightarrow> (error_response env 401 e ''Social authentication failed'', st')))"

text \<open>
  The \<^verbatim>\<open>Authorization\<close> header after \<^verbatim>\<open>split(' ')\<close>: \<open>TwoParts scheme t\<close> when it
  has exactly two parts, the second read as a token; \<open>OtherParts\<close> otherwise. A request
  without the header is \<open>None\<close>.
\<close>

datatype AuthorizationHeader = TwoParts string jwt | OtherParts

text \<open>
  \<^verbatim>\<open>authenticate\<close>: \<open>Inl\<close> is the response the middleware sends itself, \<open>Inr\<close> the
  user and token it attaches to the request before \<^verbatim>\<open>next()\<close>.
\<close>

definition authenticate ::
  "Env \<Rightarrow> Sys \<Rightarrow> Store \<Rightarrow> AuthorizationHeader option \<Rightarrow> Response + (User \<times> jwt)" where
  "authenticate env sys st authHeader =
     (case authHeader of
        None \<Rightarrow> Inl \<lparr>status = 401, body = Message ''Authorization header missing'' False\<rparr>
      | Some OtherParts \<Rightarrow>
          Inl \<lparr>status = 401, body = Message ''Invalid authorization format'' False\<rparr>
      | Some (TwoParts scheme tok) \<Rightarrow>
          if scheme \<noteq> ''Bearer''
          then Inl \<lparr>status = 401, body = Message ''Invalid authorization format'' False\<rparr>
          else
            (case jwt_verify (clock sys) tok (or_default (JWT_SECRET env) ''your-secret-key'') of
               Inl TokenExpiredError \<Rightarrow>
                 Inl \<lparr>status = 401, body = Message ''Token expired'' False\<rparr>
             | Inl JsonWebTokenError \<Rightarrow>
                 Inl \<lparr>status = 401, body = Message ''Invalid token'' False\<rparr>
             | Inr decoded \<Rightarrow>
                 (case findOne_user_by_id st (TokenPayload.id decoded) of
                    None \<Rightarrow> Inl \<lparr>status = 401, body = Message ''User not found'' False\<rparr>
                  | Some user \<Rightarrow>
                      if \<not> User.isActive user
                      then Inl \<lparr>status = 403, body = Message ''Account is inactive'' False\<rparr>
                      else if User.isLocked user
                      then Inl \<lparr>status = 403, body = Message ''Account is locked'' False\<rparr>
                      else Inr (user, tok))))"

definition getCurrentUser :: "User option \<Rightarrow> Response" where
  "getCurrentUser req_user =
     (case req_user of
        None \<Rightarrow> \<lparr>status = 401, body = Message ''Unauthorized'' False\<rparr>
      | Some user \<Rightarrow> \<lparr>status = 200, body = UserObject user\<rparr>)"

text \<open>
  Modelled from the spec: the route table, which is not among the sources. The spec
  makes \<^verbatim>\<open>GET /auth/me\<close> an authenticated endpoint, and the controller reads the user
  that the authentication middleware attached: \<^verbatim>\<open>authenticate\<close> runs first, then
  \<^verbatim>\<open>getCurrentUser\<close>.
\<close>

definition GET_auth_me :: "Env \<Rightarrow> Sys \<Rightarrow> Store \<Rightarrow> AuthorizationHeader option \<Rightarrow> Response" where
  "GET_auth_me env sys st authHeader =
     (case authenticate env sys st authHeader of
        Inl response \<Rightarrow> response
      | Inr (user, tok) \<Rightarrow> getCurrentUser (Some user))"

text \<open>
  A response writes no \<^verbatim>\<open>password\<close> key: it carries no user object, or the user
  object it carries is serialized without that key.
\<close>

definition no_password_field :: "Response \<Rightarrow> bool" where
  "no_password_field r =
     (case body_user (body r) of
        None \<Rightarrow> True
      | Some u \<Rightarrow> ''password'' \<notin> set (user_json_keys u))"

section \<open>The client's session manager\<close>

text \<open>
  The client \<^verbatim>\<open>AuthService\<close> (\<^verbatim>\<open>services/authService.ts\<close>) runs on the
  JavaScript event loop: code runs to its next \<^verbatim>\<open>await\<close>, and a network response or
  a timeout resumes it. The model is the state between two events and a step per event.
  The state holds \<^verbatim>\<open>localStorage\<close>, the armed refresh timeout, the requests in
  flight, each with the code that awaits it, every request handed to the network so far,
  what the application's callers were answered, and the window events dispatched.
\<close>

record TokenPair =
  accessToken :: string
  refreshToken :: string
  expiresIn :: int

record LocalStorage =
  accessToken :: "string option"
  refreshToken :: "string option"
  tokenExpiry :: "int option"

text \<open>
  An axios request configuration: the endpoint, the refresh token of the body when the
  request is a refresh call, the \<^verbatim>\<open>_retry\<close> mark, and the \<^verbatim>\<open>Authorization\<close>
  header.
\<close>

record Request =
  url :: string
  data :: "string option"
  retry :: bool
  Authorization :: "string option"

text \<open>
  The code awaiting a request: the application's call number \<open>n\<close>;
  \<^verbatim>\<open>refreshTokens\<close> called by the timer's callback; or \<^verbatim>\<open>refreshTokens\<close> called
  by the response interceptor while it handles the 401 of a request, whose own awaiting
  code comes with it.
\<close>

datatype Cont = App nat | RefreshFromTimer | RefreshFromInterceptor Request Cont

datatype Outcome = Resolved | Rejected string

text \<open>A response: 200 with its token pair when the body is one, or an error status.\<close>

datatype Reply = Ok "TokenPair option" | Err nat

record Client =
  storage :: LocalStorage
  timer :: "int option"
  inflight :: "(Request \<times> Cont) list"
  sent :: "Request list"
  outcomes :: "(nat \<times> Outcome) list"
  events :: "string list"



text \<open>
  Handing a request to axios: the request interceptor writes the stored access token
  into the header when there is one.
\<close>

definition send :: "Request \<Rightarrow> Cont \<Rightarrow> Client \<Rightarrow> Client" where
  "send r k c =
     (let r' = (case LocalStorage.accessToken (storage c) of
                  Some a \<Rightarrow> if a = [] then r else r\<lparr>Authorization := Some (''Bearer '' @ a)\<rparr>
                | None \<Rightarrow> r)
      in c\<lparr>inflight := inflight c @ [(r', k)], sent := sent c @ [r']\<rparr>)"










text \<open>
  The events: the application sends request number \<open>n\<close> to an endpoint; the response to
  the \<open>i\<close>-th request in flight arrives at time \<open>now\<close>; the armed timeout fires.
\<close>

datatype Event = AppRequest nat string | Response nat Reply int | TimerFires



section \<open>Example data\<close>

text \<open>
  Concrete inputs for the closed theorems below. \<open>contains_at\<close> stands for the
  \<open>isEmail\<close> validator there.
\<close>

definition contains_at :: "string \<Rightarrow> bool" where
  "contains_at s = (CHR ''@'' \<in> set s)"

definition env_default :: Env where
  "env_default =
     \<lparr>JWT_SECRET = None, JWT_REFRESH_SECRET = None, JWT_EXPIRES_IN = None,
      JWT_REFRESH_EXPIRES_IN = None, JWT_EXPIRES_IN_SECONDS = None,
      REQUIRE_EMAIL_VERIFICATION = None, NODE_ENV = None\<rparr>"

definition env_require :: Env where
  "env_require = env_default\<lparr>REQUIRE_EMAIL_VERIFICATION := Some ''true''\<rparr>"

definition sys0 :: Sys where
  "sys0 =
     \<lparr>clock = 1000000, uuid = ''u9'', uuid2 = ''t9'', randomBytes = ''c0ffee00c0ffee00'',
      salt1 = 1, salt2 = 2, random1000 = 42, randomPassword = ''k3j9x0q1zz'',
      sendMail_error = None\<rparr>"

definition alice :: User where
  "alice =
     \<lparr>User.id = ''u1'', User.username = ''alice'', User.email = ''alice@x.com'',
      User.firstName = ''Alice'', User.lastName = ''Liddell'',
      User.password = Some (Bcrypt 7 (Plain ''Abc12345!'')),
      User.role = STUDENT, User.isVerified = False, User.isActive = True,
      User.isLocked = False, User.lastLogin = None\<rparr>"

definition bob :: User where
  "bob =
     \<lparr>User.id = ''u2'', User.username = ''bob'', User.email = ''bob@x.com'',
      User.firstName = ''Bob'', User.lastName = ''Builder'',
      User.password = Some (Bcrypt 8 (Plain ''Xyz98765?'')),
      User.role = STUDENT, User.isVerified = False, User.isActive = True,
      User.isLocked = True, User.lastLogin = None\<rparr>"

definition carol :: User where
  "carol =
     \<lparr>User.id = ''u3'', User.username = ''carol'', User.email = ''carol@x.com'',
      User.firstName = ''Carol'', User.lastName = ''Singer'',
      User.password = Some (Bcrypt 9 (Plain ''Qwe45678&'')),
      User.role = INSTRUCTOR, User.isVerified = True, User.isActive = True,
      User.isLocked = False, User.lastLogin = None\<rparr>"

definition vt_expired :: VerificationToken where
  "vt_expired =
     \<lparr>VerificationToken.id = ''v1'', VerificationToken.token = ''aaaaaaaaaaaaaaaa'',
      VerificationToken.expiresAt = 999999, VerificationToken.isUsed = False,
      VerificationToken.createdAt = 0, VerificationToken.userId = ''u1''\<rparr>"

definition pr_fresh :: PasswordReset where
  "pr_fresh =
     \<lparr>PasswordReset.id = ''r1'', PasswordReset.token = ''bbbbbbbbbbbbbbbb'',
      PasswordReset.expiresAt = 2000000, PasswordReset.isUsed = False,
      PasswordReset.createdAt = 0, PasswordReset.userId = ''u1''\<rparr>"

definition pr_expired :: PasswordReset where
  "pr_expired =
     \<lparr>PasswordReset.id = ''r2'', PasswordReset.token = ''cccccccccccccccc'',
      PasswordReset.expiresAt = 999999, PasswordReset.isUsed = False,
      PasswordReset.createdAt = 0, PasswordReset.userId = ''u1''\<rparr>"

definition profile_alice :: Profile where
  "profile_alice =
     \<lparr>Profile.id = ''g-1'', Profile.email = ''alice@x.com'', Profile.firstName = None,
      Profile.given_name = None, Profile.name = Some ''Alice L'', Profile.lastName = None,
      Profile.family_name = None\<rparr>"

definition link_alice :: SocialAccount where
  "link_alice =
     \<lparr>SocialAccount.id = ''s1'', SocialAccount.provider = GOOGLE,
      SocialAccount.providerId = ''g-1'', SocialAccount.accessToken = Some ''old-token'',
      SocialAccount.refreshToken = None, SocialAccount.profile = profile_alice,
      SocialAccount.userId = ''u1''\<rparr>"

definition store0 :: Store where
  "store0 =
     \<lparr>users = [alice, bob, carol],
      verification_tokens = [vt_expired],
      password_resets = [pr_fresh, pr_expired],
      social_accounts = [link_alice],
      outbox = []\<rparr>"

definition reset_dto :: ResetPasswordDto where
  "reset_dto =
     \<lparr>ResetPasswordDto.token = ''bbbbbbbbbbbbbbbb'', ResetPasswordDto.password = ''Abc12345!'',
      ResetPasswordDto.confirmPassword = ''Abc12345!''\<rparr>"

definition login_alice :: LoginUserDto where
  "login_alice = \<lparr>LoginUserDto.email = ''alice@x.com'', LoginUserDto.password = ''Abc12345!''\<rparr>"

definition login_bob :: LoginUserDto where
  "login_bob = \<lparr>LoginUserDto.email = ''bob@x.com'', LoginUserDto.password = ''Xyz98765?''\<rparr>"

definition expired_refresh_token :: jwt where
  "expired_refresh_token =
     Signed ''refresh-secret''
       \<lparr>TokenPayload.id = ''u1'', TokenPayload.email = None, TokenPayload.role = None,
        TokenPayload.iat = 0, TokenPayload.exp = 10\<rparr>"

definition orphan_refresh_token :: jwt where
  "orphan_refresh_token =
     Signed ''refresh-secret''
       \<lparr>TokenPayload.id = ''nobody'', TokenPayload.email = None, TokenPayload.role = None,
        TokenPayload.iat = 900, TokenPayload.exp = 2000\<rparr>"

definition bob_refresh_token :: jwt where
  "bob_refresh_token =
     Signed ''refresh-secret''
       \<lparr>TokenPayload.id = ''u2'', TokenPayload.email = None, TokenPayload.role = None,
        TokenPayload.iat = 900, TokenPayload.exp = 2000\<rparr>"

definition bob_access_token :: jwt where
  "bob_access_token =
     Signed ''your-secret-key''
       \<lparr>TokenPayload.id = ''u2'', TokenPayload.email = Some ''bob@x.com'',
        TokenPayload.role = Some STUDENT, TokenPayload.iat = 900, TokenPayload.exp = 2000\<rparr>"

definition social_dto :: SocialAuthDto where
  "social_dto =
     \<lparr>SocialAuthDto.provider = GOOGLE, SocialAuthDto.token = ''new-token'',
      SocialAuthDto.profile = Some (profile_alice\<lparr>Profile.name := Some ''Alice Pleasance''\<rparr>)\<rparr>"

definition register_dave :: RegisterUserDto where
  "register_dave =
     \<lparr>RegisterUserDto.username = ''dave'', RegisterUserDto.email = ''dave@x.com'',
      RegisterUserDto.password = ''Abc12345!'', RegisterUserDto.firstName = ''Dave'',
      RegisterUserDto.lastName = ''Bowman''\<rparr>"

definition alice_access_token :: jwt where
  "alice_access_token =
     Signed ''your-secret-key''
       \<lparr>TokenPayload.id = ''u1'', TokenPayload.email = Some ''alice@x.com'',
        TokenPayload.role = Some STUDENT, TokenPayload.iat = 900, TokenPayload.exp = 2000\<rparr>"







definition vt_fresh :: VerificationToken where
  "vt_fresh =
     \<lparr>VerificationToken.id = ''v2'', VerificationToken.token = ''dddddddddddddddd'',
      VerificationToken.expiresAt = 2000000, VerificationToken.isUsed = False,
      VerificationToken.createdAt = 0, VerificationToken.userId = ''u1''\<rparr>"

definition store_fresh :: Store where
  "store_fresh = store0\<lparr>verification_tokens := [vt_expired, vt_fresh]\<rparr>"




definition bob_unlocked_store :: Store where
  "bob_unlocked_store = store0\<lparr>users := [alice, bob\<lparr>User.isLocked := False\<rparr>, carol]\<rparr>"

section \<open>Single-use token validity\<close>

text \<open>
  C7. A single-use token is valid exactly when it is not used and the clock is not past
  \<open>expiresAt\<close>. A verification token inserted at \<open>T\<close> is valid one millisecond before
  \<open>T + 24h\<close> and invalid one millisecond after; a token marked used is invalid at every
  time. A password-reset token has the same boundary at \<open>T + 1h\<close>.
\<close>

theorem single_use_token_validity:
  "isValid now t = (\<not> VerificationToken.isUsed t \<and> now \<le> VerificationToken.expiresAt t)
   \<and> VerificationToken.expiresAt (new_VerificationToken k b T u) = T + 24 * 60 * 60 * 1000
   \<and> isValid (T + 24 * 60 * 60 * 1000 - 1) (new_VerificationToken k b T u)
   \<and> \<not> isValid (T + 24 * 60 * 60 * 1000 + 1) (new_VerificationToken k b T u)
   \<and> \<not> isValid now (t\<lparr>VerificationToken.isUsed := True\<rparr>)
   \<and> isValidReset now r = (\<not> PasswordReset.isUsed r \<and> now \<le> PasswordReset.expiresAt r)
   \<and> PasswordReset.expiresAt (new_PasswordReset k b T u) = T + 60 * 60 * 1000
   \<and> isValidReset (T + 60 * 60 * 1000 - 1) (new_PasswordReset k b T u)
   \<and> \<not> isValidReset (T + 60 * 60 * 1000 + 1) (new_PasswordReset k b T u)
   \<and> \<not> isValidReset now (r\<lparr>PasswordReset.isUsed := True\<rparr>)"
  by (auto simp: isValid_def isExpired_def new_VerificationToken_def generateToken_def
      isValidReset_def isExpiredReset_def new_PasswordReset_def generateResetToken_def)

section \<open>Shared lemmas\<close>

lemma find_map_replace:
  assumes "find P xs = Some x" and "P y"
  shows "find P (map (\<lambda>t. if f t = f x then y else t) xs) = Some y"
  using assms by (induction xs) (auto split: if_splits)

lemma update_user_password_resets [simp]:
  "password_resets (snd (update_user s u st)) = password_resets st"
  by (simp add: update_user_def Let_def split: option.splits)

lemma update_user_social_accounts [simp]:
  "social_accounts (snd (update_user s u st)) = social_accounts st"
  by (simp add: update_user_def Let_def split: option.splits)

lemma update_user_verification_tokens [simp]:
  "verification_tokens (snd (update_user s u st)) = verification_tokens st"
  by (simp add: update_user_def Let_def split: option.splits)

lemma update_user_outbox [simp]:
  "outbox (snd (update_user s u st)) = outbox st"
  by (simp add: update_user_def Let_def split: option.splits)

lemma find_map_other:
  "find (\<lambda>r. f r = i) (map (\<lambda>r. if f r = i then y else r) xs)
     = (if find (\<lambda>r. f r = i) xs = None then None else if f y = i then Some y else None)"
  by (induction xs) auto

lemma filter_map_other:
  "f y = i \<Longrightarrow> filter (\<lambda>r. f r \<noteq> i) (map (\<lambda>r. if f r = i then y else r) xs)
     = filter (\<lambda>r. f r \<noteq> i) xs"
  by (induction xs) auto

lemma controller_resetPassword_unfold:
  "controller_resetPassword env sys st resetPasswordDto =
     (if \<not> (length (ResetPasswordDto.token resetPasswordDto) \<ge> 10
             \<and> valid_password (ResetPasswordDto.password resetPasswordDto)
             \<and> ResetPasswordDto.confirmPassword resetPasswordDto
                 = ResetPasswordDto.password resetPasswordDto)
      then (validation_failed, st)
      else
        (case resetPassword sys st resetPasswordDto of
           (Inr m, st') \<Rightarrow> (\<lparr>status = 200, body = Message m False\<rparr>, st')
         | (Inl e, st') \<Rightarrow> (error_response env 400 e ''Password reset failed'', st')))"
  by (simp add: controller_resetPassword_def controller_resetPassword_with_def
      resetPassword_def)

lemma findOne_user_by_id_sound:
  "findOne_user_by_id st i = Some u \<Longrightarrow> User.id u = i \<and> User.password u = None"
  by (auto simp: findOne_user_by_id_def unselect_password_def find_Some_iff)

lemma valid_password_example: "valid_password ''Abc12345!''"
  by (simp add: valid_password_def matches_password_pattern_def first_line_def
      is_lower_def is_upper_def is_digit_def is_symbol_def)

section \<open>Consuming a single-use token twice\<close>

lemma verifyEmail_twice:
  assumes found: "find (\<lambda>t. VerificationToken.token t = vtok) (verification_tokens st) = Some vt"
    and valid: "isValid (clock sys) vt"
    and user: "findOne_user_by_id st (VerificationToken.userId vt) = Some u"
  shows "verifyEmail sys st vtok
           = (Inr ''Email verified successfully'',
              mark_verification_token_used vt
                (snd (update_user (salt1 sys) (u\<lparr>User.isVerified := True\<rparr>) st)))
       \<and> verifyEmail sys'
           (mark_verification_token_used vt
              (snd (update_user (salt1 sys) (u\<lparr>User.isVerified := True\<rparr>) st))) vtok
           = (Inl (Error ''Verification token has expired''),
              mark_verification_token_used vt
                (snd (update_user (salt1 sys) (u\<lparr>User.isVerified := True\<rparr>) st)))"
proof -
  let ?st1 = "snd (update_user (salt1 sys) (u\<lparr>User.isVerified := True\<rparr>) st)"
  have first: "verifyEmail sys st vtok
                 = (Inr ''Email verified successfully'', mark_verification_token_used vt ?st1)"
    using found valid user by (simp add: verifyEmail_def split: prod.splits)
  have tok_vt: "VerificationToken.token vt = vtok"
    using found by (auto simp: find_Some_iff)
  have found2: "find (\<lambda>t. VerificationToken.token t = vtok)
                  (verification_tokens (mark_verification_token_used vt ?st1))
                = Some (vt\<lparr>VerificationToken.isUsed := True\<rparr>)"
    using find_map_replace
            [OF found, of "vt\<lparr>VerificationToken.isUsed := True\<rparr>" VerificationToken.id]
      tok_vt
    by (simp add: mark_verification_token_used_def)
  have second: "verifyEmail sys' (mark_verification_token_used vt ?st1) vtok
                  = (Inl (Error ''Verification token has expired''),
                     mark_verification_token_used vt ?st1)"
    using found2 by (simp add: verifyEmail_def isValid_def)
  show ?thesis using first second by simp
qed

lemma resetPassword_with_twice:
  assumes found: "find (\<lambda>t. PasswordReset.token t = ResetPasswordDto.token d)
                    (password_resets st) = Some pr"
    and valid: "validP (clock sys) pr"
    and used: "\<not> validP (clock sys') (pr\<lparr>PasswordReset.isUsed := True\<rparr>)"
    and user: "findOne_user_by_id st (PasswordReset.userId pr) = Some u"
    and same: "ResetPasswordDto.confirmPassword d = ResetPasswordDto.password d"
  shows "resetPassword_with validP sys st d
           = (Inr ''Password reset successful'',
              mark_password_reset_used pr
                (snd (update_user (salt1 sys)
                   (u\<lparr>User.password := Some (Plain (ResetPasswordDto.password d))\<rparr>) st)))
       \<and> resetPassword_with validP sys'
           (mark_password_reset_used pr
              (snd (update_user (salt1 sys)
                 (u\<lparr>User.password := Some (Plain (ResetPasswordDto.password d))\<rparr>) st))) d
           = (Inl (Error ''Password reset token has expired''),
              mark_password_reset_used pr
                (snd (update_user (salt1 sys)
                   (u\<lparr>User.password := Some (Plain (ResetPasswordDto.password d))\<rparr>) st)))"
proof -
  let ?st1 = "snd (update_user (salt1 sys)
                 (u\<lparr>User.password := Some (Plain (ResetPasswordDto.password d))\<rparr>) st)"
  have first: "resetPassword_with validP sys st d
                 = (Inr ''Password reset successful'', mark_password_reset_used pr ?st1)"
    using found valid user same
    by (simp add: resetPassword_with_def split: prod.splits)
  have tok_pr: "PasswordReset.token pr = ResetPasswordDto.token d"
    using found by (auto simp: find_Some_iff)
  have found2: "find (\<lambda>t. PasswordReset.token t = ResetPasswordDto.token d)
                  (password_resets (mark_password_reset_used pr ?st1))
                = Some (pr\<lparr>PasswordReset.isUsed := True\<rparr>)"
    using find_map_replace[OF found, of "pr\<lparr>PasswordReset.isUsed := True\<rparr>" PasswordReset.id]
      tok_pr
    by (simp add: mark_password_reset_used_def)
  have second: "resetPassword_with validP sys' (mark_password_reset_used pr ?st1) d
                  = (Inl (Error ''Password reset token has expired''),
                     mark_password_reset_used pr ?st1)"
    using found2 same used by (simp add: resetPassword_with_def)
  show ?thesis using first second by simp
qed

text \<open>
  C2, as the code has it. When \<^verbatim>\<open>resetPassword\<close> is called with a token that is found
  and valid, for a user that exists, with a password that passes validation and its
  confirmation, the endpoint answers 200. A second call with the same body, at any
  later time, answers 400 with the message \<^verbatim>\<open>Password reset token has expired\<close>: the
  message of an expired token, not one of its own. \<^verbatim>\<open>verifyEmail\<close> does the same
  with a verification token: the first call succeeds, the second is refused with
  \<^verbatim>\<open>Verification token has expired\<close>. In general, consuming a single-use token fails
  with the invalid-token error when the value is not found and with the one expired
  error when the token found is used or past its expiry, so the failures are two, not
  three. For the reset token this rests on \<^verbatim>\<open>resetPassword\<close> alone: whatever
  \<^verbatim>\<open>isValid()\<close> computes, a token it rejects gets the expired error, and the second
  call is refused as soon as \<^verbatim>\<open>isValid()\<close> rejects a used token.
\<close>

theorem resetPassword_twice:
  assumes found: "find (\<lambda>t. PasswordReset.token t = ResetPasswordDto.token d)
                    (password_resets st) = Some pr"
    and valid: "isValidReset (clock sys) pr"
    and user: "findOne_user_by_id st (PasswordReset.userId pr) = Some u"
    and tok: "length (ResetPasswordDto.token d) \<ge> 10"
    and pw: "valid_password (ResetPasswordDto.password d)"
    and same: "ResetPasswordDto.confirmPassword d = ResetPasswordDto.password d"
  shows "fst (controller_resetPassword env sys st d)
           = \<lparr>status = 200, body = Message ''Password reset successful'' False\<rparr>
       \<and> fst (controller_resetPassword env sys' (snd (controller_resetPassword env sys st d)) d)
           = \<lparr>status = 400,
              body = Message ''Password reset token has expired'' (not_production env)\<rparr>
       \<and> (find (\<lambda>t. PasswordReset.token t = ResetPasswordDto.token d) (password_resets st2) = None
            \<longrightarrow> resetPassword sys2 st2 d = (Inl (Error ''Invalid password reset token''), st2))
       \<and> (find (\<lambda>t. PasswordReset.token t = ResetPasswordDto.token d) (password_resets st2) = Some p
            \<and> (PasswordReset.isUsed p \<or> clock sys2 > PasswordReset.expiresAt p)
            \<longrightarrow> resetPassword sys2 st2 d = (Inl (Error ''Password reset token has expired''), st2))
       \<and> (find (\<lambda>t. PasswordReset.token t = ResetPasswordDto.token d) (password_resets st2) = Some p
            \<and> \<not> validP (clock sys2) p
            \<longrightarrow> resetPassword_with validP sys2 st2 d
                  = (Inl (Error ''Password reset token has expired''), st2))
       \<and> (validP (clock sys) pr \<and> \<not> validP (clock sys') (pr\<lparr>PasswordReset.isUsed := True\<rparr>)
            \<longrightarrow> fst (resetPassword_with validP sys st d) = Inr ''Password reset successful''
                \<and> fst (resetPassword_with validP sys' (snd (resetPassword_with validP sys st d)) d)
                    = Inl (Error ''Password reset token has expired'')
                \<and> fst (controller_resetPassword_with validP env sys st d)
                    = \<lparr>status = 200, body = Message ''Password reset successful'' False\<rparr>
                \<and> fst (controller_resetPassword_with validP env sys'
                         (snd (controller_resetPassword_with validP env sys st d)) d)
                    = \<lparr>status = 400,
                       body = Message ''Password reset token has expired'' (not_production env)\<rparr>)
       \<and> (find (\<lambda>t. VerificationToken.token t = vtok) (verification_tokens st3) = None
            \<longrightarrow> verifyEmail sys3 st3 vtok = (Inl (Error ''Invalid verification token''), st3))
       \<and> (find (\<lambda>t. VerificationToken.token t = vtok) (verification_tokens st3) = Some v
            \<and> (VerificationToken.isUsed v \<or> clock sys3 > VerificationToken.expiresAt v)
            \<longrightarrow> verifyEmail sys3 st3 vtok = (Inl (Error ''Verification token has expired''), st3))
       \<and> (find (\<lambda>t. VerificationToken.token t = vtok) (verification_tokens st3) = Some v
            \<and> isValid (clock sys3) v
            \<and> findOne_user_by_id st3 (VerificationToken.userId v) = Some u3
            \<and> length vtok \<ge> 10
            \<longrightarrow> fst (controller_verifyEmail env sys3 st3 vtok)
                  = \<lparr>status = 200, body = Message ''Email verified successfully'' False\<rparr>
                \<and> fst (controller_verifyEmail env sys3'
                         (snd (controller_verifyEmail env sys3 st3 vtok)) vtok)
                  = \<lparr>status = 400,
                     body = Message ''Verification token has expired'' (not_production env)\<rparr>)"
proof -
  have twice: "resetPassword sys st d
           = (Inr ''Password reset successful'',
              mark_password_reset_used pr
                (snd (update_user (salt1 sys)
                   (u\<lparr>User.password := Some (Plain (ResetPasswordDto.password d))\<rparr>) st)))
       \<and> resetPassword sys'
           (mark_password_reset_used pr
              (snd (update_user (salt1 sys)
                 (u\<lparr>User.password := Some (Plain (ResetPasswordDto.password d))\<rparr>) st))) d
           = (Inl (Error ''Password reset token has expired''),
              mark_password_reset_used pr
                (snd (update_user (salt1 sys)
                   (u\<lparr>User.password := Some (Plain (ResetPasswordDto.password d))\<rparr>) st)))"
    using resetPassword_with_twice
            [where validP = isValidReset and sys' = sys', OF found valid _ user same]
    by (simp add: resetPassword_def isValidReset_def)
  have calls: "fst (controller_resetPassword env sys st d)
           = \<lparr>status = 200, body = Message ''Password reset successful'' False\<rparr>
       \<and> fst (controller_resetPassword env sys' (snd (controller_resetPassword env sys st d)) d)
           = \<lparr>status = 400,
              body = Message ''Password reset token has expired'' (not_production env)\<rparr>"
    using twice tok pw same
    by (simp add: controller_resetPassword_unfold error_response_def)
  have missing: "find (\<lambda>t. PasswordReset.token t = ResetPasswordDto.token d)
                   (password_resets st2) = None
            \<longrightarrow> resetPassword sys2 st2 d = (Inl (Error ''Invalid password reset token''), st2)"
    using same by (simp add: resetPassword_def resetPassword_with_def)
  have invalid: "find (\<lambda>t. PasswordReset.token t = ResetPasswordDto.token d)
                   (password_resets st2) = Some p
            \<and> (PasswordReset.isUsed p \<or> clock sys2 > PasswordReset.expiresAt p)
            \<longrightarrow> resetPassword sys2 st2 d = (Inl (Error ''Password reset token has expired''), st2)"
    using same
    by (auto simp: resetPassword_def resetPassword_with_def isValidReset_def isExpiredReset_def)
  have rejected: "find (\<lambda>t. PasswordReset.token t = ResetPasswordDto.token d)
                   (password_resets st2) = Some p
            \<and> \<not> validP (clock sys2) p
            \<longrightarrow> resetPassword_with validP sys2 st2 d
                  = (Inl (Error ''Password reset token has expired''), st2)"
    using same by (simp add: resetPassword_with_def)
  have any_rule: "validP (clock sys) pr
            \<and> \<not> validP (clock sys') (pr\<lparr>PasswordReset.isUsed := True\<rparr>)
            \<longrightarrow> fst (resetPassword_with validP sys st d) = Inr ''Password reset successful''
                \<and> fst (resetPassword_with validP sys' (snd (resetPassword_with validP sys st d)) d)
                    = Inl (Error ''Password reset token has expired'')
                \<and> fst (controller_resetPassword_with validP env sys st d)
                    = \<lparr>status = 200, body = Message ''Password reset successful'' False\<rparr>
                \<and> fst (controller_resetPassword_with validP env sys'
                         (snd (controller_resetPassword_with validP env sys st d)) d)
                    = \<lparr>status = 400,
                       body = Message ''Password reset token has expired'' (not_production env)\<rparr>"
    using resetPassword_with_twice
            [where validP = validP and sys = sys and sys' = sys', OF found _ _ user same]
          tok pw same
    by (simp add: controller_resetPassword_with_def error_response_def)
  have vmissing: "find (\<lambda>t. VerificationToken.token t = vtok) (verification_tokens st3) = None
            \<longrightarrow> verifyEmail sys3 st3 vtok = (Inl (Error ''Invalid verification token''), st3)"
    by (simp add: verifyEmail_def)
  have vinvalid: "find (\<lambda>t. VerificationToken.token t = vtok) (verification_tokens st3) = Some v
            \<and> (VerificationToken.isUsed v \<or> clock sys3 > VerificationToken.expiresAt v)
            \<longrightarrow> verifyEmail sys3 st3 vtok = (Inl (Error ''Verification token has expired''), st3)"
    by (auto simp: verifyEmail_def isValid_def isExpired_def)
  have vtwice: "find (\<lambda>t. VerificationToken.token t = vtok) (verification_tokens st3) = Some v
            \<and> isValid (clock sys3) v
            \<and> findOne_user_by_id st3 (VerificationToken.userId v) = Some u3
            \<and> length vtok \<ge> 10
            \<longrightarrow> fst (controller_verifyEmail env sys3 st3 vtok)
                  = \<lparr>status = 200, body = Message ''Email verified successfully'' False\<rparr>
                \<and> fst (controller_verifyEmail env sys3'
                         (snd (controller_verifyEmail env sys3 st3 vtok)) vtok)
                  = \<lparr>status = 400,
                     body = Message ''Verification token has expired'' (not_production env)\<rparr>"
  proof (intro impI, elim conjE)
    assume f: "find (\<lambda>t. VerificationToken.token t = vtok) (verification_tokens st3) = Some v"
      and ok: "isValid (clock sys3) v"
      and us: "findOne_user_by_id st3 (VerificationToken.userId v) = Some u3"
      and len: "length vtok \<ge> 10"
    show "fst (controller_verifyEmail env sys3 st3 vtok)
                  = \<lparr>status = 200, body = Message ''Email verified successfully'' False\<rparr>
                \<and> fst (controller_verifyEmail env sys3'
                         (snd (controller_verifyEmail env sys3 st3 vtok)) vtok)
                  = \<lparr>status = 400,
                     body = Message ''Verification token has expired'' (not_production env)\<rparr>"
      using verifyEmail_twice[OF f ok us, of sys3'] len
      by (simp add: controller_verifyEmail_def error_response_def)
  qed
  show ?thesis
    using calls missing invalid rejected any_rule vmissing vinvalid vtwice by blast
qed

theorem resetPassword_twice_witness:
  "find (\<lambda>t. PasswordReset.token t = ResetPasswordDto.token reset_dto)
     (password_resets store0) = Some pr_fresh
   \<and> isValidReset (clock sys0) pr_fresh
   \<and> findOne_user_by_id store0 (PasswordReset.userId pr_fresh) = Some (unselect_password alice)
   \<and> length (ResetPasswordDto.token reset_dto) \<ge> 10
   \<and> valid_password (ResetPasswordDto.password reset_dto)
   \<and> ResetPasswordDto.confirmPassword reset_dto = ResetPasswordDto.password reset_dto
   \<and> fst (controller_resetPassword env_default sys0 store0 reset_dto)
       = \<lparr>status = 200, body = Message ''Password reset successful'' False\<rparr>
   \<and> fst (controller_resetPassword env_default (sys0\<lparr>clock := 1000001\<rparr>)
            (snd (controller_resetPassword env_default sys0 store0 reset_dto)) reset_dto)
       = \<lparr>status = 400, body = Message ''Password reset token has expired'' True\<rparr>
   \<and> find (\<lambda>t. PasswordReset.token t = ResetPasswordDto.token reset_dto)
        (password_resets (store0\<lparr>password_resets := []\<rparr>)) = None
   \<and> fst (resetPassword sys0 (store0\<lparr>password_resets := []\<rparr>) reset_dto)
       = Inl (Error ''Invalid password reset token'')
   \<and> find (\<lambda>t. PasswordReset.token t = ResetPasswordDto.token reset_dto)
        (password_resets (store0\<lparr>password_resets := [pr_fresh\<lparr>PasswordReset.isUsed := True\<rparr>]\<rparr>))
       = Some (pr_fresh\<lparr>PasswordReset.isUsed := True\<rparr>)
   \<and> PasswordReset.isUsed (pr_fresh\<lparr>PasswordReset.isUsed := True\<rparr>)
   \<and> fst (resetPassword sys0
            (store0\<lparr>password_resets := [pr_fresh\<lparr>PasswordReset.isUsed := True\<rparr>]\<rparr>) reset_dto)
       = Inl (Error ''Password reset token has expired'')
   \<and> \<not> isValidReset (clock sys0) (pr_fresh\<lparr>PasswordReset.isUsed := True\<rparr>)
   \<and> fst (resetPassword_with isValidReset sys0
            (store0\<lparr>password_resets := [pr_fresh\<lparr>PasswordReset.isUsed := True\<rparr>]\<rparr>) reset_dto)
       = Inl (Error ''Password reset token has expired'')
   \<and> fst (resetPassword_with isValidReset sys0 store0 reset_dto) = Inr ''Password reset successful''
   \<and> fst (resetPassword_with isValidReset (sys0\<lparr>clock := 1000001\<rparr>)
            (snd (resetPassword_with isValidReset sys0 store0 reset_dto)) reset_dto)
       = Inl (Error ''Password reset token has expired'')
   \<and> \<not> PasswordReset.isUsed pr_fresh
   \<and> fst (controller_resetPassword_with (\<lambda>now t. \<not> PasswordReset.isUsed t) env_default sys0
            store0 reset_dto)
       = \<lparr>status = 200, body = Message ''Password reset successful'' False\<rparr>
   \<and> fst (controller_resetPassword_with (\<lambda>now t. \<not> PasswordReset.isUsed t) env_default
            (sys0\<lparr>clock := 1000001\<rparr>)
            (snd (controller_resetPassword_with (\<lambda>now t. \<not> PasswordReset.isUsed t) env_default
                    sys0 store0 reset_dto)) reset_dto)
       = \<lparr>status = 400, body = Message ''Password reset token has expired'' True\<rparr>
   \<and> find (\<lambda>t. VerificationToken.token t = ''zzzzzzzzzzzz'') (verification_tokens store_fresh) = None
   \<and> fst (verifyEmail sys0 store_fresh ''zzzzzzzzzzzz'') = Inl (Error ''Invalid verification token'')
   \<and> find (\<lambda>t. VerificationToken.token t = ''aaaaaaaaaaaaaaaa'') (verification_tokens store_fresh)
       = Some vt_expired
   \<and> clock sys0 > VerificationToken.expiresAt vt_expired
   \<and> fst (verifyEmail sys0 store_fresh ''aaaaaaaaaaaaaaaa'')
       = Inl (Error ''Verification token has expired'')
   \<and> find (\<lambda>t. VerificationToken.token t = ''dddddddddddddddd'') (verification_tokens store_fresh)
       = Some vt_fresh
   \<and> isValid (clock sys0) vt_fresh
   \<and> findOne_user_by_id store_fresh (VerificationToken.userId vt_fresh)
       = Some (unselect_password alice)
   \<and> fst (controller_verifyEmail env_default sys0 store_fresh ''dddddddddddddddd'')
       = \<lparr>status = 200, body = Message ''Email verified successfully'' False\<rparr>
   \<and> fst (controller_verifyEmail env_default (sys0\<lparr>clock := 1000001\<rparr>)
            (snd (controller_verifyEmail env_default sys0 store_fresh ''dddddddddddddddd''))
            ''dddddddddddddddd'')
       = \<lparr>status = 400, body = Message ''Verification token has expired'' True\<rparr>"
proof -
  have h1: "find (\<lambda>t. PasswordReset.token t = ResetPasswordDto.token reset_dto)
              (password_resets store0) = Some pr_fresh"
    by (simp add: store0_def pr_fresh_def pr_expired_def reset_dto_def)
  have h2: "isValidReset (clock sys0) pr_fresh"
    by (simp add: sys0_def pr_fresh_def isValidReset_def isExpiredReset_def)
  have h3: "findOne_user_by_id store0 (PasswordReset.userId pr_fresh)
              = Some (unselect_password alice)"
    by (simp add: store0_def alice_def bob_def carol_def pr_fresh_def findOne_user_by_id_def)
  have h4: "length (ResetPasswordDto.token reset_dto) \<ge> 10"
    by (simp add: reset_dto_def)
  have h5: "valid_password (ResetPasswordDto.password reset_dto)"
    by (simp add: reset_dto_def valid_password_example)
  have h6: "ResetPasswordDto.confirmPassword reset_dto = ResetPasswordDto.password reset_dto"
    by (simp add: reset_dto_def)
  have np: "not_production env_default"
    by (simp add: not_production_def env_default_def)
  have g1: "find (\<lambda>t. PasswordReset.token t = ResetPasswordDto.token reset_dto)
        (password_resets (store0\<lparr>password_resets := []\<rparr>)) = None"
    by simp
  have g2: "find (\<lambda>t. PasswordReset.token t = ResetPasswordDto.token reset_dto)
        (password_resets (store0\<lparr>password_resets := [pr_fresh\<lparr>PasswordReset.isUsed := True\<rparr>]\<rparr>))
       = Some (pr_fresh\<lparr>PasswordReset.isUsed := True\<rparr>)"
    by (simp add: pr_fresh_def reset_dto_def)
  have g3: "\<not> isValidReset (clock sys0) (pr_fresh\<lparr>PasswordReset.isUsed := True\<rparr>)
      \<and> \<not> isValidReset (clock (sys0\<lparr>clock := 1000001\<rparr>)) (pr_fresh\<lparr>PasswordReset.isUsed := True\<rparr>)"
    by (simp add: isValidReset_def)
  have g4: "\<not> PasswordReset.isUsed pr_fresh"
    by (simp add: pr_fresh_def)
  have v1: "find (\<lambda>t. VerificationToken.token t = ''zzzzzzzzzzzz'') (verification_tokens store_fresh)
              = None"
    by (simp add: store_fresh_def vt_expired_def vt_fresh_def)
  have v2: "find (\<lambda>t. VerificationToken.token t = ''aaaaaaaaaaaaaaaa'')
              (verification_tokens store_fresh) = Some vt_expired
      \<and> clock sys0 > VerificationToken.expiresAt vt_expired"
    by (simp add: store_fresh_def vt_expired_def vt_fresh_def sys0_def)
  have v3: "find (\<lambda>t. VerificationToken.token t = ''dddddddddddddddd'')
              (verification_tokens store_fresh) = Some vt_fresh
      \<and> isValid (clock sys0) vt_fresh
      \<and> findOne_user_by_id store_fresh (VerificationToken.userId vt_fresh)
          = Some (unselect_password alice)
      \<and> length ''dddddddddddddddd'' \<ge> 10"
    by (simp add: store_fresh_def store0_def alice_def bob_def carol_def vt_expired_def
        vt_fresh_def sys0_def isValid_def isExpired_def findOne_user_by_id_def)
  show ?thesis
    using resetPassword_twice
            [OF h1 h2 h3 h4 h5 h6,
             where env = env_default and sys' = "sys0\<lparr>clock := 1000001\<rparr>"
               and ?st2.0 = "store0\<lparr>password_resets := []\<rparr>" and ?sys2.0 = sys0
               and validP = isValidReset
               and ?st3.0 = store_fresh and ?sys3.0 = sys0 and vtok = "''zzzzzzzzzzzz''"]
          resetPassword_twice
            [OF h1 h2 h3 h4 h5 h6,
             where env = env_default and sys' = "sys0\<lparr>clock := 1000001\<rparr>"
               and ?st2.0 = "store0\<lparr>password_resets := [pr_fresh\<lparr>PasswordReset.isUsed := True\<rparr>]\<rparr>"
               and ?sys2.0 = sys0 and p = "pr_fresh\<lparr>PasswordReset.isUsed := True\<rparr>"
               and validP = isValidReset
               and ?st3.0 = store_fresh and ?sys3.0 = sys0 and vtok = "''aaaaaaaaaaaaaaaa''"
               and v = vt_expired]
          resetPassword_twice
            [OF h1 h2 h3 h4 h5 h6,
             where env = env_default and sys' = "sys0\<lparr>clock := 1000001\<rparr>"
               and ?st3.0 = store_fresh and ?sys3.0 = sys0 and vtok = "''dddddddddddddddd''"
               and v = vt_fresh and ?u3.0 = "unselect_password alice"
               and ?sys3' = "sys0\<lparr>clock := 1000001\<rparr>"]
          resetPassword_twice
            [OF h1 h2 h3 h4 h5 h6,
             where env = env_default and sys' = "sys0\<lparr>clock := 1000001\<rparr>"
               and validP = "\<lambda>now t. \<not> PasswordReset.isUsed t"]
      h1 h2 h3 h4 h5 h6 np g1 g2 g3 g4 v1 v2 v3
    by simp
qed

text \<open>
  The claim as stated fails: the second call's error is the error of an expired token.
  Here the second call, on a token that is used and not expired, is refused with the
  same error as a call on a token that is expired and not used, for a reset token and
  for a verification token alike.
\<close>

theorem resetPassword_used_is_reported_as_expired:
  "fst (resetPassword sys0 store0 reset_dto) = Inr ''Password reset successful''
   \<and> fst (resetPassword sys0 (snd (resetPassword sys0 store0 reset_dto)) reset_dto)
       = Inl (Error ''Password reset token has expired'')
   \<and> fst (resetPassword sys0 store0
            (reset_dto\<lparr>ResetPasswordDto.token := PasswordReset.token pr_expired\<rparr>))
       = Inl (Error ''Password reset token has expired'')
   \<and> \<not> isExpiredReset (clock sys0) pr_fresh
   \<and> \<not> PasswordReset.isUsed pr_expired
   \<and> fst (verifyEmail sys0 store_fresh ''dddddddddddddddd'') = Inr ''Email verified successfully''
   \<and> fst (verifyEmail sys0 (snd (verifyEmail sys0 store_fresh ''dddddddddddddddd''))
            ''dddddddddddddddd'')
       = Inl (Error ''Verification token has expired'')
   \<and> fst (verifyEmail sys0 store_fresh ''aaaaaaaaaaaaaaaa'')
       = Inl (Error ''Verification token has expired'')
   \<and> \<not> isExpired (clock sys0) vt_fresh
   \<and> \<not> VerificationToken.isUsed vt_expired"
  by (simp add: env_default_def sys0_def alice_def bob_def carol_def vt_expired_def
      pr_fresh_def pr_expired_def profile_alice_def link_alice_def store0_def
      store_fresh_def vt_fresh_def reset_dto_def resetPassword_def resetPassword_with_def
      isValidReset_def isExpiredReset_def verifyEmail_def isValid_def isExpired_def
      findOne_user_by_id_def unselect_password_def update_user_def merge_user_def
      hashPassword_def mark_password_reset_used_def mark_verification_token_used_def Let_def)

section \<open>Login before the email is verified\<close>

text \<open>
  C3, as the code has it. With \<^verbatim>\<open>REQUIRE_EMAIL_VERIFICATION\<close> set to \<^verbatim>\<open>true\<close>,
  a login for an account that is not locked, is active and is not verified fails in the
  service with \<^verbatim>\<open>Please verify your email before logging in\<close> (before the password
  is looked at, and with nothing written), and the endpoint answers 401 with the
  message \<^verbatim>\<open>Invalid credentials\<close>. It does so for every error of the service: an
  unknown address, a locked account (checked first), an inactive account (checked
  next), a wrong password. A body that fails validation is answered 400 and a login
  that succeeds 200, so the endpoint never answers 403.
\<close>

theorem login_unverified_answers_401:
  assumes "getOne_user_with_password_by_email st (LoginUserDto.email d) = Some u"
    and "\<not> User.isVerified u" and "\<not> User.isLocked u" and "User.isActive u"
    and "REQUIRE_EMAIL_VERIFICATION env = Some ''true''"
    and "isEmail (LoginUserDto.email d)"
  shows "login env sys st d = (Inl (Error ''Please verify your email before logging in''), st)
       \<and> controller_login isEmail env sys st d
           = (\<lparr>status = 401, body = Message ''Invalid credentials'' False\<rparr>, st)
       \<and> status (fst (controller_login isEmail' env' sys' st' d')) \<noteq> 403
       \<and> (isEmail' (LoginUserDto.email d') \<and> isl (fst (login env' sys' st' d'))
            \<longrightarrow> controller_login isEmail' env' sys' st' d'
                  = (\<lparr>status = 401, body = Message ''Invalid credentials'' False\<rparr>,
                     snd (login env' sys' st' d')))
       \<and> (isEmail' (LoginUserDto.email d') \<and> fst (login env' sys' st' d') = Inr (u2, t2)
            \<longrightarrow> controller_login isEmail' env' sys' st' d'
                  = (\<lparr>status = 200, body = AuthResult ''Login successful'' u2 t2\<rparr>,
                     snd (login env' sys' st' d')))
       \<and> (\<not> isEmail' (LoginUserDto.email d')
            \<longrightarrow> controller_login isEmail' env' sys' st' d'
                  = (\<lparr>status = 400, body = ValidationErrors\<rparr>, st'))
       \<and> (getOne_user_with_password_by_email st' (LoginUserDto.email d') = None
            \<longrightarrow> login env' sys' st' d' = (Inl (Error ''Invalid credentials''), st'))
       \<and> (getOne_user_with_password_by_email st' (LoginUserDto.email d') = Some u'
            \<and> User.isLocked u'
            \<longrightarrow> login env' sys' st' d'
                  = (Inl (Error ''Your account has been locked. Please contact support.''), st'))
       \<and> (getOne_user_with_password_by_email st' (LoginUserDto.email d') = Some u'
            \<and> \<not> User.isLocked u' \<and> \<not> User.isActive u'
            \<longrightarrow> login env' sys' st' d'
                  = (Inl (Error ''Your account is inactive. Please contact support.''), st'))
       \<and> (getOne_user_with_password_by_email st' (LoginUserDto.email d') = Some u'
            \<and> \<not> User.isLocked u' \<and> User.isActive u'
            \<and> \<not> (REQUIRE_EMAIL_VERIFICATION env' = Some ''true'' \<and> \<not> User.isVerified u')
            \<and> comparePassword u' (Plain (LoginUserDto.password d')) = Inr False
            \<longrightarrow> login env' sys' st' d' = (Inl (Error ''Invalid credentials''), st'))"
proof -
  have never: "status (fst (controller_login isEmail' env' sys' st' d')) \<noteq> 403"
    by (auto simp: controller_login_def validation_failed_def split: prod.splits sum.splits)
  have errors: "isEmail' (LoginUserDto.email d') \<and> isl (fst (login env' sys' st' d'))
            \<longrightarrow> controller_login isEmail' env' sys' st' d'
                  = (\<lparr>status = 401, body = Message ''Invalid credentials'' False\<rparr>,
                     snd (login env' sys' st' d'))"
    by (cases "login env' sys' st' d'") (auto simp: controller_login_def split: sum.splits)
  have success: "isEmail' (LoginUserDto.email d') \<and> fst (login env' sys' st' d') = Inr (u2, t2)
            \<longrightarrow> controller_login isEmail' env' sys' st' d'
                  = (\<lparr>status = 200, body = AuthResult ''Login successful'' u2 t2\<rparr>,
                     snd (login env' sys' st' d'))"
    by (cases "login env' sys' st' d'") (auto simp: controller_login_def split: sum.splits)
  have invalid: "\<not> isEmail' (LoginUserDto.email d')
            \<longrightarrow> controller_login isEmail' env' sys' st' d'
                  = (\<lparr>status = 400, body = ValidationErrors\<rparr>, st')"
    by (simp add: controller_login_def validation_failed_def)
  have service: "(getOne_user_with_password_by_email st' (LoginUserDto.email d') = None
            \<longrightarrow> login env' sys' st' d' = (Inl (Error ''Invalid credentials''), st'))
       \<and> (getOne_user_with_password_by_email st' (LoginUserDto.email d') = Some u'
            \<and> User.isLocked u'
            \<longrightarrow> login env' sys' st' d'
                  = (Inl (Error ''Your account has been locked. Please contact support.''), st'))
       \<and> (getOne_user_with_password_by_email st' (LoginUserDto.email d') = Some u'
            \<and> \<not> User.isLocked u' \<and> \<not> User.isActive u'
            \<longrightarrow> login env' sys' st' d'
                  = (Inl (Error ''Your account is inactive. Please contact support.''), st'))
       \<and> (getOne_user_with_password_by_email st' (LoginUserDto.email d') = Some u'
            \<and> \<not> User.isLocked u' \<and> User.isActive u'
            \<and> \<not> (REQUIRE_EMAIL_VERIFICATION env' = Some ''true'' \<and> \<not> User.isVerified u')
            \<and> comparePassword u' (Plain (LoginUserDto.password d')) = Inr False
            \<longrightarrow> login env' sys' st' d' = (Inl (Error ''Invalid credentials''), st'))"
    by (auto simp: login_def)
  have main: "login env sys st d
                = (Inl (Error ''Please verify your email before logging in''), st)
       \<and> controller_login isEmail env sys st d
           = (\<lparr>status = 401, body = Message ''Invalid credentials'' False\<rparr>, st)"
    using assms by (simp add: login_def controller_login_def)
  show ?thesis
    using main never errors success invalid service by blast
qed

theorem login_unverified_answers_401_witness:
  "getOne_user_with_password_by_email store0 (LoginUserDto.email login_alice) = Some alice
   \<and> \<not> User.isVerified alice \<and> \<not> User.isLocked alice \<and> User.isActive alice
   \<and> REQUIRE_EMAIL_VERIFICATION env_require = Some ''true''
   \<and> contains_at (LoginUserDto.email login_alice)
   \<and> comparePassword alice (Plain (LoginUserDto.password login_alice)) = Inr True
   \<and> login env_require sys0 store0 login_alice
       = (Inl (Error ''Please verify your email before logging in''), store0)
   \<and> controller_login contains_at env_require sys0 store0 login_alice
       = (\<lparr>status = 401, body = Message ''Invalid credentials'' False\<rparr>, store0)
   \<and> getOne_user_with_password_by_email store0 (LoginUserDto.email login_bob) = Some bob
   \<and> User.isLocked bob
   \<and> contains_at (LoginUserDto.email login_bob)
   \<and> login env_require sys0 store0 login_bob
       = (Inl (Error ''Your account has been locked. Please contact support.''), store0)
   \<and> controller_login contains_at env_require sys0 store0 login_bob
       = (\<lparr>status = 401, body = Message ''Invalid credentials'' False\<rparr>, store0)
   \<and> getOne_user_with_password_by_email store0
        (LoginUserDto.email (login_alice\<lparr>LoginUserDto.email := ''nobody@x.com''\<rparr>)) = None
   \<and> controller_login contains_at env_require sys0 store0
        (login_alice\<lparr>LoginUserDto.email := ''nobody@x.com''\<rparr>)
       = (\<lparr>status = 401, body = Message ''Invalid credentials'' False\<rparr>, store0)
   \<and> \<not> contains_at (LoginUserDto.email (login_alice\<lparr>LoginUserDto.email := ''nobody''\<rparr>))
   \<and> controller_login contains_at env_require sys0 store0
        (login_alice\<lparr>LoginUserDto.email := ''nobody''\<rparr>)
       = (\<lparr>status = 400, body = ValidationErrors\<rparr>, store0)
   \<and> comparePassword alice (Plain (LoginUserDto.password
          (login_alice\<lparr>LoginUserDto.password := ''wrong''\<rparr>))) = Inr False
   \<and> controller_login contains_at env_default sys0 store0
        (login_alice\<lparr>LoginUserDto.password := ''wrong''\<rparr>)
       = (\<lparr>status = 401, body = Message ''Invalid credentials'' False\<rparr>, store0)
   \<and> status (fst (controller_login contains_at env_default sys0 store0 login_alice)) = 200"
proof -
  have h1: "getOne_user_with_password_by_email store0 (LoginUserDto.email login_alice) = Some alice"
    by (simp add: store0_def alice_def bob_def carol_def login_alice_def
        getOne_user_with_password_by_email_def)
  have h2: "\<not> User.isVerified alice" by (simp add: alice_def)
  have h3: "\<not> User.isLocked alice" by (simp add: alice_def)
  have h4: "User.isActive alice" by (simp add: alice_def)
  have h5: "REQUIRE_EMAIL_VERIFICATION env_require = Some ''true''"
    by (simp add: env_require_def)
  have h6: "contains_at (LoginUserDto.email login_alice)"
    by (simp add: contains_at_def login_alice_def)
  have h7: "comparePassword alice (Plain (LoginUserDto.password login_alice)) = Inr True"
    by (simp add: comparePassword_def alice_def login_alice_def)
  have b1: "getOne_user_with_password_by_email store0 (LoginUserDto.email login_bob) = Some bob
      \<and> User.isLocked bob \<and> contains_at (LoginUserDto.email login_bob)"
    by (simp add: store0_def alice_def bob_def carol_def login_bob_def contains_at_def
        getOne_user_with_password_by_email_def)
  have n1: "getOne_user_with_password_by_email store0
        (LoginUserDto.email (login_alice\<lparr>LoginUserDto.email := ''nobody@x.com''\<rparr>)) = None
      \<and> contains_at (LoginUserDto.email (login_alice\<lparr>LoginUserDto.email := ''nobody@x.com''\<rparr>))"
    by (simp add: store0_def alice_def bob_def carol_def contains_at_def
        getOne_user_with_password_by_email_def)
  have n2: "\<not> contains_at (LoginUserDto.email (login_alice\<lparr>LoginUserDto.email := ''nobody''\<rparr>))"
    by (simp add: contains_at_def)
  have w1: "getOne_user_with_password_by_email store0
        (LoginUserDto.email (login_alice\<lparr>LoginUserDto.password := ''wrong''\<rparr>)) = Some alice
      \<and> contains_at (LoginUserDto.email (login_alice\<lparr>LoginUserDto.password := ''wrong''\<rparr>))
      \<and> comparePassword alice (Plain (LoginUserDto.password
          (login_alice\<lparr>LoginUserDto.password := ''wrong''\<rparr>))) = Inr False
      \<and> REQUIRE_EMAIL_VERIFICATION env_default \<noteq> Some ''true''"
    by (simp add: store0_def alice_def bob_def carol_def login_alice_def contains_at_def
        env_default_def comparePassword_def getOne_user_with_password_by_email_def)
  have ok: "fst (login env_default sys0 store0 login_alice)
              = Inr (fst (projr (fst (login env_default sys0 store0 login_alice))),
                     snd (projr (fst (login env_default sys0 store0 login_alice))))"
    by (simp add: store0_def alice_def bob_def carol_def login_alice_def env_default_def
        sys0_def login_def comparePassword_def getOne_user_with_password_by_email_def
        update_user_def merge_user_def hashPassword_def Let_def)
  show ?thesis
    using login_unverified_answers_401
            [where isEmail = contains_at and st = store0 and d = login_alice and u = alice
               and env = env_require and sys = sys0
               and isEmail' = contains_at and env' = env_require and sys' = sys0
               and st' = store0 and d' = login_bob and u' = bob]
          login_unverified_answers_401
            [where isEmail = contains_at and st = store0 and d = login_alice and u = alice
               and env = env_require and sys = sys0
               and isEmail' = contains_at and env' = env_require and sys' = sys0
               and st' = store0
               and d' = "login_alice\<lparr>LoginUserDto.email := ''nobody@x.com''\<rparr>"]
          login_unverified_answers_401
            [where isEmail = contains_at and st = store0 and d = login_alice and u = alice
               and env = env_require and sys = sys0
               and isEmail' = contains_at and env' = env_require and sys' = sys0
               and st' = store0
               and d' = "login_alice\<lparr>LoginUserDto.email := ''nobody''\<rparr>"]
          login_unverified_answers_401
            [where isEmail = contains_at and st = store0 and d = login_alice and u = alice
               and env = env_require and sys = sys0
               and isEmail' = contains_at and env' = env_default and sys' = sys0
               and st' = store0
               and d' = "login_alice\<lparr>LoginUserDto.password := ''wrong''\<rparr>" and u' = alice]
          login_unverified_answers_401
            [where isEmail = contains_at and st = store0 and d = login_alice and u = alice
               and env = env_require and sys = sys0
               and isEmail' = contains_at and env' = env_default and sys' = sys0
               and st' = store0 and d' = login_alice
               and ?u2.0 = "fst (projr (fst (login env_default sys0 store0 login_alice)))"
               and ?t2.0 = "snd (projr (fst (login env_default sys0 store0 login_alice)))"]
          h1 h2 h3 h4 h5 h6 h7 b1 n1 n2 w1 ok
    by simp
qed

text \<open>
  The claim as stated fails twice. The endpoint answers 401, not 403, for the
  unverified account with the right password; and for an account that is unverified
  and locked the service's error is the locked-account one.
\<close>

theorem login_unverified_is_not_403:
  "\<not> User.isVerified alice
   \<and> comparePassword alice (Plain (LoginUserDto.password login_alice)) = Inr True
   \<and> status (fst (controller_login contains_at env_require sys0 store0 login_alice)) = 401
   \<and> status (fst (controller_login contains_at env_require sys0 store0 login_alice)) \<noteq> 403
   \<and> \<not> User.isVerified bob
   \<and> comparePassword bob (Plain (LoginUserDto.password login_bob)) = Inr True
   \<and> fst (login env_require sys0 store0 login_bob)
       = Inl (Error ''Your account has been locked. Please contact support.'')"
  by (simp add: env_default_def sys0_def alice_def bob_def carol_def vt_expired_def
        pr_fresh_def pr_expired_def profile_alice_def link_alice_def store0_def
        contains_at_def env_require_def login_alice_def login_bob_def login_def controller_login_def comparePassword_def
      getOne_user_with_password_by_email_def)

section \<open>Failed verification and reset leave the store alone\<close>

text \<open>
  C10. When \<^verbatim>\<open>verifyEmail\<close> or \<^verbatim>\<open>resetPassword\<close> throws, the store is the store
  before the call: no user row (password, \<open>isVerified\<close>) and no token row (\<open>isUsed\<close>)
  has changed; the same holds at the endpoints whenever the answer is not 200. The
  reasons named do make the call throw: a token value that is not found, a token that
  is used or expired, and a confirmation that differs from the password.
\<close>

theorem failed_verify_or_reset_changes_nothing:
  "(isl (fst (verifyEmail sys st tok)) \<longrightarrow> snd (verifyEmail sys st tok) = st)
   \<and> (isl (fst (resetPassword sys st d)) \<longrightarrow> snd (resetPassword sys st d) = st)
   \<and> (status (fst (controller_verifyEmail env sys st tok)) \<noteq> 200
        \<longrightarrow> snd (controller_verifyEmail env sys st tok) = st)
   \<and> (status (fst (controller_resetPassword env sys st d)) \<noteq> 200
        \<longrightarrow> snd (controller_resetPassword env sys st d) = st)
   \<and> (find (\<lambda>t. VerificationToken.token t = tok) (verification_tokens st) = None
        \<longrightarrow> isl (fst (verifyEmail sys st tok)))
   \<and> (find (\<lambda>t. VerificationToken.token t = tok) (verification_tokens st) = Some vt
        \<and> \<not> isValid (clock sys) vt \<longrightarrow> isl (fst (verifyEmail sys st tok)))
   \<and> (ResetPasswordDto.password d \<noteq> ResetPasswordDto.confirmPassword d
        \<longrightarrow> isl (fst (resetPassword sys st d)))
   \<and> (find (\<lambda>t. PasswordReset.token t = ResetPasswordDto.token d) (password_resets st) = None
        \<longrightarrow> isl (fst (resetPassword sys st d)))
   \<and> (find (\<lambda>t. PasswordReset.token t = ResetPasswordDto.token d) (password_resets st) = Some pr
        \<and> \<not> isValidReset (clock sys) pr \<longrightarrow> isl (fst (resetPassword sys st d)))"
proof -
  have v: "isl (fst (verifyEmail sys st tok)) \<longrightarrow> snd (verifyEmail sys st tok) = st"
    by (auto simp: verifyEmail_def split: option.splits prod.splits if_splits)
  have r: "isl (fst (resetPassword sys st d)) \<longrightarrow> snd (resetPassword sys st d) = st"
    by (auto simp: resetPassword_def resetPassword_with_def split: option.splits prod.splits if_splits)
  have cv: "status (fst (controller_verifyEmail env sys st tok)) \<noteq> 200
        \<longrightarrow> snd (controller_verifyEmail env sys st tok) = st"
    using v
    by (cases "verifyEmail sys st tok")
       (auto simp: controller_verifyEmail_def validation_failed_def split: sum.splits)
  have cr: "status (fst (controller_resetPassword env sys st d)) \<noteq> 200
        \<longrightarrow> snd (controller_resetPassword env sys st d) = st"
    using r
    by (cases "resetPassword sys st d")
       (auto simp: controller_resetPassword_unfold resetPassword_with_def validation_failed_def split: sum.splits)
  have fv: "(find (\<lambda>t. VerificationToken.token t = tok) (verification_tokens st) = None
        \<longrightarrow> isl (fst (verifyEmail sys st tok)))
   \<and> (find (\<lambda>t. VerificationToken.token t = tok) (verification_tokens st) = Some vt
        \<and> \<not> isValid (clock sys) vt \<longrightarrow> isl (fst (verifyEmail sys st tok)))"
    by (simp add: verifyEmail_def)
  have fr: "(ResetPasswordDto.password d \<noteq> ResetPasswordDto.confirmPassword d
        \<longrightarrow> isl (fst (resetPassword sys st d)))
   \<and> (find (\<lambda>t. PasswordReset.token t = ResetPasswordDto.token d) (password_resets st) = None
        \<longrightarrow> isl (fst (resetPassword sys st d)))
   \<and> (find (\<lambda>t. PasswordReset.token t = ResetPasswordDto.token d) (password_resets st) = Some pr
        \<and> \<not> isValidReset (clock sys) pr \<longrightarrow> isl (fst (resetPassword sys st d)))"
    by (simp add: resetPassword_def resetPassword_with_def)
  show ?thesis using v r cv cr fv fr by blast
qed

theorem failed_verify_or_reset_changes_nothing_witness:
  "isl (fst (verifyEmail sys0 store0 ''aaaaaaaaaaaaaaaa''))
   \<and> snd (verifyEmail sys0 store0 ''aaaaaaaaaaaaaaaa'') = store0
   \<and> isl (fst (resetPassword sys0 store0 (reset_dto\<lparr>ResetPasswordDto.confirmPassword := ''other''\<rparr>)))
   \<and> snd (resetPassword sys0 store0 (reset_dto\<lparr>ResetPasswordDto.confirmPassword := ''other''\<rparr>))
       = store0
   \<and> status (fst (controller_verifyEmail env_default sys0 store0 ''aaaaaaaaaaaaaaaa'')) \<noteq> 200
   \<and> snd (controller_verifyEmail env_default sys0 store0 ''aaaaaaaaaaaaaaaa'') = store0
   \<and> find (\<lambda>t. VerificationToken.token t = ''aaaaaaaaaaaaaaaa'') (verification_tokens store0)
       = Some vt_expired
   \<and> \<not> isValid (clock sys0) vt_expired
   \<and> ResetPasswordDto.password (reset_dto\<lparr>ResetPasswordDto.confirmPassword := ''other''\<rparr>)
       \<noteq> ResetPasswordDto.confirmPassword
           (reset_dto\<lparr>ResetPasswordDto.confirmPassword := ''other''\<rparr>)
   \<and> find (\<lambda>t. VerificationToken.token t = ''zzzzzzzzzzzz'') (verification_tokens store0) = None
   \<and> isl (fst (verifyEmail sys0 store0 ''zzzzzzzzzzzz''))
   \<and> snd (verifyEmail sys0 store0 ''zzzzzzzzzzzz'') = store0
   \<and> find (\<lambda>t. PasswordReset.token t
                    = ResetPasswordDto.token
                        (reset_dto\<lparr>ResetPasswordDto.token := ''cccccccccccccccc''\<rparr>))
        (password_resets store0) = Some pr_expired
   \<and> \<not> isValidReset (clock sys0) pr_expired
   \<and> status (fst (controller_resetPassword env_default sys0 store0
                   (reset_dto\<lparr>ResetPasswordDto.token := ''cccccccccccccccc''\<rparr>))) \<noteq> 200
   \<and> snd (controller_resetPassword env_default sys0 store0
            (reset_dto\<lparr>ResetPasswordDto.token := ''cccccccccccccccc''\<rparr>)) = store0"
proof -
  have a: "isl (fst (verifyEmail sys0 store0 ''aaaaaaaaaaaaaaaa''))"
    by (simp add: env_default_def sys0_def alice_def bob_def carol_def vt_expired_def
        pr_fresh_def pr_expired_def profile_alice_def link_alice_def store0_def
        reset_dto_def verifyEmail_def isValid_def isExpired_def)
  have b: "isl (fst (resetPassword sys0 store0
                  (reset_dto\<lparr>ResetPasswordDto.confirmPassword := ''other''\<rparr>)))"
    by (simp add: reset_dto_def resetPassword_def resetPassword_with_def)
  have c: "status (fst (controller_verifyEmail env_default sys0 store0 ''aaaaaaaaaaaaaaaa'')) \<noteq> 200"
    by (simp add: env_default_def sys0_def alice_def bob_def carol_def vt_expired_def
        pr_fresh_def pr_expired_def profile_alice_def link_alice_def store0_def
        reset_dto_def controller_verifyEmail_def verifyEmail_def isValid_def
        isExpired_def error_response_def)
  have d: "find (\<lambda>t. VerificationToken.token t = ''aaaaaaaaaaaaaaaa'') (verification_tokens store0)
       = Some vt_expired \<and> \<not> isValid (clock sys0) vt_expired"
    by (simp add: env_default_def sys0_def alice_def bob_def carol_def vt_expired_def
        pr_fresh_def pr_expired_def profile_alice_def link_alice_def store0_def
        reset_dto_def isValid_def isExpired_def)
  have e: "ResetPasswordDto.password (reset_dto\<lparr>ResetPasswordDto.confirmPassword := ''other''\<rparr>)
       \<noteq> ResetPasswordDto.confirmPassword
           (reset_dto\<lparr>ResetPasswordDto.confirmPassword := ''other''\<rparr>)"
    by (simp add: reset_dto_def)
  have f: "find (\<lambda>t. VerificationToken.token t = ''zzzzzzzzzzzz'') (verification_tokens store0)
             = None"
    by (simp add: env_default_def sys0_def alice_def bob_def carol_def vt_expired_def
        pr_fresh_def pr_expired_def profile_alice_def link_alice_def store0_def
        reset_dto_def)
  have g: "find (\<lambda>t. PasswordReset.token t
                    = ResetPasswordDto.token
                        (reset_dto\<lparr>ResetPasswordDto.token := ''cccccccccccccccc''\<rparr>))
        (password_resets store0) = Some pr_expired
      \<and> \<not> isValidReset (clock sys0) pr_expired"
    by (simp add: env_default_def sys0_def alice_def bob_def carol_def vt_expired_def
        pr_fresh_def pr_expired_def profile_alice_def link_alice_def store0_def
        reset_dto_def isValidReset_def isExpiredReset_def)
  have h: "status (fst (controller_resetPassword env_default sys0 store0
                   (reset_dto\<lparr>ResetPasswordDto.token := ''cccccccccccccccc''\<rparr>))) \<noteq> 200"
    by (simp add: env_default_def sys0_def alice_def bob_def carol_def vt_expired_def
        pr_fresh_def pr_expired_def profile_alice_def link_alice_def store0_def
        reset_dto_def controller_resetPassword_unfold resetPassword_with_def resetPassword_def resetPassword_with_def isValidReset_def
        isExpiredReset_def error_response_def valid_password_example)
  show ?thesis
    using failed_verify_or_reset_changes_nothing
            [where sys = sys0 and st = store0 and tok = "''aaaaaaaaaaaaaaaa''"
               and d = "reset_dto\<lparr>ResetPasswordDto.confirmPassword := ''other''\<rparr>"
               and env = env_default and vt = vt_expired]
          failed_verify_or_reset_changes_nothing
            [where sys = sys0 and st = store0 and tok = "''zzzzzzzzzzzz''"
               and d = "reset_dto\<lparr>ResetPasswordDto.token := ''cccccccccccccccc''\<rparr>"
               and env = env_default and pr = pr_expired]
          a b c d e f g h
    by blast
qed

section \<open>Resending the verification email, and forgotten passwords\<close>

text \<open>
  C4, as the code has it. \<^verbatim>\<open>resendVerification\<close>, for an address that passes
  validation, answers 400 with the message \<^verbatim>\<open>User not found\<close> when no account has
  the address, 400 with \<^verbatim>\<open>Email is already verified\<close> when a verified account has
  it (neither writes anything), and 200 with \<^verbatim>\<open>Verification email sent\<close> when an
  unverified account has it and the mail is accepted. \<^verbatim>\<open>forgotPassword\<close>, for an
  address that passes validation, always answers 200 with a body whose only key is
  \<^verbatim>\<open>message\<close>, whether or not an account has the address.
\<close>

theorem resendVerification_tells_accounts_apart:
  "(isEmail mail \<and> findOne_user_by_email st mail = None
      \<longrightarrow> controller_resendVerification isEmail env sys st mail
            = (\<lparr>status = 400, body = Message ''User not found'' (not_production env)\<rparr>, st))
   \<and> (isEmail mail \<and> findOne_user_by_email st mail = Some u \<and> User.isVerified u
      \<longrightarrow> controller_resendVerification isEmail env sys st mail
            = (\<lparr>status = 400, body = Message ''Email is already verified'' (not_production env)\<rparr>,
               st))
   \<and> (isEmail mail \<and> findOne_user_by_email st mail = Some u \<and> \<not> User.isVerified u
        \<and> sendMail_error sys = None
      \<longrightarrow> fst (controller_resendVerification isEmail env sys st mail)
            = \<lparr>status = 200, body = Message ''Verification email sent'' False\<rparr>)
   \<and> (isEmail (ForgotPasswordDto.email dto)
      \<longrightarrow> status (fst (controller_forgotPassword isEmail env sys st dto)) = 200
          \<and> body_keys (body (fst (controller_forgotPassword isEmail env sys st dto)))
              = [''message''])"
proof -
  have absent: "isEmail mail \<and> findOne_user_by_email st mail = None
      \<longrightarrow> controller_resendVerification isEmail env sys st mail
            = (\<lparr>status = 400, body = Message ''User not found'' (not_production env)\<rparr>, st)"
    by (simp add: controller_resendVerification_def resendVerificationEmail_def
        error_response_def)
  have verified: "isEmail mail \<and> findOne_user_by_email st mail = Some u \<and> User.isVerified u
      \<longrightarrow> controller_resendVerification isEmail env sys st mail
            = (\<lparr>status = 400, body = Message ''Email is already verified'' (not_production env)\<rparr>,
               st)"
    by (simp add: controller_resendVerification_def resendVerificationEmail_def
        error_response_def)
  have unverified: "isEmail mail \<and> findOne_user_by_email st mail = Some u
        \<and> \<not> User.isVerified u \<and> sendMail_error sys = None
      \<longrightarrow> fst (controller_resendVerification isEmail env sys st mail)
            = \<lparr>status = 200, body = Message ''Verification email sent'' False\<rparr>"
    by (simp add: controller_resendVerification_def resendVerificationEmail_def
        sendVerificationEmail_def Let_def)
  have forgot: "isEmail (ForgotPasswordDto.email dto)
      \<longrightarrow> status (fst (controller_forgotPassword isEmail env sys st dto)) = 200
          \<and> body_keys (body (fst (controller_forgotPassword isEmail env sys st dto)))
              = [''message'']"
    by (cases "forgotPassword sys st dto")
       (auto simp: controller_forgotPassword_def body_keys_def split: sum.splits)
  show ?thesis using absent verified unverified forgot by blast
qed

theorem resendVerification_tells_accounts_apart_witness:
  "contains_at ''nobody@x.com'' \<and> findOne_user_by_email store0 ''nobody@x.com'' = None
   \<and> controller_resendVerification contains_at env_default sys0 store0 ''nobody@x.com''
       = (\<lparr>status = 400, body = Message ''User not found'' True\<rparr>, store0)
   \<and> contains_at ''carol@x.com''
   \<and> findOne_user_by_email store0 ''carol@x.com'' = Some (unselect_password carol)
   \<and> User.isVerified (unselect_password carol)
   \<and> controller_resendVerification contains_at env_default sys0 store0 ''carol@x.com''
       = (\<lparr>status = 400, body = Message ''Email is already verified'' True\<rparr>, store0)
   \<and> contains_at ''alice@x.com''
   \<and> findOne_user_by_email store0 ''alice@x.com'' = Some (unselect_password alice)
   \<and> \<not> User.isVerified (unselect_password alice) \<and> sendMail_error sys0 = None
   \<and> fst (controller_resendVerification contains_at env_default sys0 store0 ''alice@x.com'')
       = \<lparr>status = 200, body = Message ''Verification email sent'' False\<rparr>
   \<and> status (fst (controller_forgotPassword contains_at env_default sys0 store0
                   \<lparr>ForgotPasswordDto.email = ''alice@x.com''\<rparr>)) = 200
   \<and> status (fst (controller_forgotPassword contains_at env_default sys0 store0
                   \<lparr>ForgotPasswordDto.email = ''nobody@x.com''\<rparr>)) = 200"
proof -
  have n: "contains_at ''nobody@x.com'' \<and> findOne_user_by_email store0 ''nobody@x.com'' = None"
    by (simp add: env_default_def sys0_def alice_def bob_def carol_def vt_expired_def
        pr_fresh_def pr_expired_def profile_alice_def link_alice_def store0_def
        contains_at_def findOne_user_by_email_def)
  have c: "contains_at ''carol@x.com''
      \<and> findOne_user_by_email store0 ''carol@x.com'' = Some (unselect_password carol)
      \<and> User.isVerified (unselect_password carol)"
    by (simp add: env_default_def sys0_def alice_def bob_def carol_def vt_expired_def
        pr_fresh_def pr_expired_def profile_alice_def link_alice_def store0_def
        contains_at_def findOne_user_by_email_def unselect_password_def)
  have a: "contains_at ''alice@x.com''
      \<and> findOne_user_by_email store0 ''alice@x.com'' = Some (unselect_password alice)
      \<and> \<not> User.isVerified (unselect_password alice) \<and> sendMail_error sys0 = None"
    by (simp add: env_default_def sys0_def alice_def bob_def carol_def vt_expired_def
        pr_fresh_def pr_expired_def profile_alice_def link_alice_def store0_def
        contains_at_def findOne_user_by_email_def unselect_password_def)
  have np: "not_production env_default"
    by (simp add: not_production_def env_default_def)
  have fa: "contains_at (ForgotPasswordDto.email \<lparr>ForgotPasswordDto.email = ''alice@x.com''\<rparr>)"
    by (simp add: contains_at_def)
  have fn: "contains_at (ForgotPasswordDto.email \<lparr>ForgotPasswordDto.email = ''nobody@x.com''\<rparr>)"
    by (simp add: contains_at_def)
  show ?thesis
    using resendVerification_tells_accounts_apart
            [where isEmail = contains_at and mail = "''nobody@x.com''" and st = store0
               and env = env_default and sys = sys0
               and dto = "\<lparr>ForgotPasswordDto.email = ''nobody@x.com''\<rparr>"]
          resendVerification_tells_accounts_apart
            [where isEmail = contains_at and mail = "''carol@x.com''" and st = store0
               and env = env_default and sys = sys0 and u = "unselect_password carol"
               and dto = "\<lparr>ForgotPasswordDto.email = ''alice@x.com''\<rparr>"]
          resendVerification_tells_accounts_apart
            [where isEmail = contains_at and mail = "''alice@x.com''" and st = store0
               and env = env_default and sys = sys0 and u = "unselect_password alice"
               and dto = "\<lparr>ForgotPasswordDto.email = ''alice@x.com''\<rparr>"]
          n c a np fa fn
    by simp
qed

text \<open>
  The claim as stated fails: for an existing, unverified account the answer is 200,
  for an address of no account it is 400; and for a verified account the answer is a
  failure (400), not a success.
\<close>

theorem resendVerification_is_not_uniform:
  "status (fst (controller_resendVerification contains_at env_default sys0 store0
                  ''alice@x.com'')) = 200
   \<and> status (fst (controller_resendVerification contains_at env_default sys0 store0
                  ''nobody@x.com'')) = 400
   \<and> status (fst (controller_resendVerification contains_at env_default sys0 store0
                  ''carol@x.com'')) = 400
   \<and> body (fst (controller_resendVerification contains_at env_default sys0 store0
                  ''carol@x.com''))
       \<noteq> body (fst (controller_resendVerification contains_at env_default sys0 store0
                  ''nobody@x.com''))"
  by (simp add: env_default_def sys0_def alice_def bob_def carol_def vt_expired_def
        pr_fresh_def pr_expired_def profile_alice_def link_alice_def store0_def
        contains_at_def controller_resendVerification_def resendVerificationEmail_def
      findOne_user_by_email_def unselect_password_def sendVerificationEmail_def
      error_response_def Let_def)

section \<open>Refreshing tokens\<close>

text \<open>
  C5, as the code has it. \<^verbatim>\<open>refreshTokens\<close> verifies the token against the refresh
  secret, loads the user by the id in the payload and returns a newly signed pair. A
  token that fails verification (malformed, signed with another key, or expired) and a
  payload whose user does not exist all end in the one error
  \<^verbatim>\<open>Invalid refresh token\<close>, and the endpoint answers every failure with 401 and that
  message: the causes are not told apart.
\<close>

theorem refreshTokens_failures_collapse:
  "(jwt_verify (clock sys) rt (or_default (JWT_REFRESH_SECRET env) ''refresh-secret'') = Inl e
      \<longrightarrow> refreshTokens env sys st rt = Inl (Error ''Invalid refresh token''))
   \<and> (jwt_verify (clock sys) rt (or_default (JWT_REFRESH_SECRET env) ''refresh-secret'')
        = Inr decoded
       \<and> findOne_user_by_id st (TokenPayload.id decoded) = None
      \<longrightarrow> refreshTokens env sys st rt = Inl (Error ''Invalid refresh token''))
   \<and> (jwt_verify (clock sys) rt (or_default (JWT_REFRESH_SECRET env) ''refresh-secret'')
        = Inr decoded
       \<and> findOne_user_by_id st (TokenPayload.id decoded) = Some user
      \<longrightarrow> refreshTokens env sys st rt = Inr (generateTokens env (clock sys) user)
          \<and> controller_refreshToken env sys st rt
              = \<lparr>status = 200, body = Tokens (generateTokens env (clock sys) user)\<rparr>)
   \<and> (isl (refreshTokens env sys st rt)
      \<longrightarrow> controller_refreshToken env sys st rt
            = \<lparr>status = 401, body = Message ''Invalid refresh token'' False\<rparr>)
   \<and> (k \<noteq> or_default (JWT_REFRESH_SECRET env) ''refresh-secret''
      \<longrightarrow> refreshTokens env sys st (Signed k p) = Inl (Error ''Invalid refresh token''))"
  by (auto simp: refreshTokens_def refreshTokens_try_def controller_refreshToken_def
      jwt_verify_def split: sum.splits option.splits)

theorem refreshTokens_failures_collapse_witness:
  "jwt_verify (clock sys0) expired_refresh_token
      (or_default (JWT_REFRESH_SECRET env_default) ''refresh-secret'') = Inl TokenExpiredError
   \<and> refreshTokens env_default sys0 store0 expired_refresh_token
       = Inl (Error ''Invalid refresh token'')
   \<and> jwt_verify (clock sys0) bob_refresh_token
        (or_default (JWT_REFRESH_SECRET env_default) ''refresh-secret'')
       = Inr \<lparr>TokenPayload.id = ''u2'', TokenPayload.email = None, TokenPayload.role = None,
              TokenPayload.iat = 900, TokenPayload.exp = 2000\<rparr>
   \<and> findOne_user_by_id store0 ''u2'' = Some (unselect_password bob)
   \<and> refreshTokens env_default sys0 store0 bob_refresh_token
       = Inr (generateTokens env_default (clock sys0) (unselect_password bob))
   \<and> controller_refreshToken env_default sys0 store0 expired_refresh_token
       = \<lparr>status = 401, body = Message ''Invalid refresh token'' False\<rparr>
   \<and> jwt_verify (clock sys0) orphan_refresh_token
        (or_default (JWT_REFRESH_SECRET env_default) ''refresh-secret'')
       = Inr \<lparr>TokenPayload.id = ''nobody'', TokenPayload.email = None, TokenPayload.role = None,
              TokenPayload.iat = 900, TokenPayload.exp = 2000\<rparr>
   \<and> findOne_user_by_id store0 ''nobody'' = None
   \<and> refreshTokens env_default sys0 store0 orphan_refresh_token
       = Inl (Error ''Invalid refresh token'')
   \<and> ''your-secret-key'' \<noteq> or_default (JWT_REFRESH_SECRET env_default) ''refresh-secret''
   \<and> refreshTokens env_default sys0 store0 alice_access_token
       = Inl (Error ''Invalid refresh token'')"
proof -
  have v1: "jwt_verify (clock sys0) expired_refresh_token
      (or_default (JWT_REFRESH_SECRET env_default) ''refresh-secret'') = Inl TokenExpiredError"
    by (simp add: env_default_def sys0_def alice_def bob_def carol_def vt_expired_def
        pr_fresh_def pr_expired_def profile_alice_def link_alice_def store0_def
        expired_refresh_token_def orphan_refresh_token_def bob_refresh_token_def
        alice_access_token_def jwt_verify_def or_default_def)
  have v2: "jwt_verify (clock sys0) bob_refresh_token
        (or_default (JWT_REFRESH_SECRET env_default) ''refresh-secret'')
       = Inr \<lparr>TokenPayload.id = ''u2'', TokenPayload.email = None, TokenPayload.role = None,
              TokenPayload.iat = 900, TokenPayload.exp = 2000\<rparr>"
    by (simp add: env_default_def sys0_def alice_def bob_def carol_def vt_expired_def
        pr_fresh_def pr_expired_def profile_alice_def link_alice_def store0_def
        expired_refresh_token_def orphan_refresh_token_def bob_refresh_token_def
        alice_access_token_def jwt_verify_def or_default_def)
  have u2: "findOne_user_by_id store0 ''u2'' = Some (unselect_password bob)"
    by (simp add: env_default_def sys0_def alice_def bob_def carol_def vt_expired_def
        pr_fresh_def pr_expired_def profile_alice_def link_alice_def store0_def
        expired_refresh_token_def orphan_refresh_token_def bob_refresh_token_def
        alice_access_token_def findOne_user_by_id_def)
  have v3: "jwt_verify (clock sys0) orphan_refresh_token
        (or_default (JWT_REFRESH_SECRET env_default) ''refresh-secret'')
       = Inr \<lparr>TokenPayload.id = ''nobody'', TokenPayload.email = None, TokenPayload.role = None,
              TokenPayload.iat = 900, TokenPayload.exp = 2000\<rparr>"
    by (simp add: env_default_def sys0_def alice_def bob_def carol_def vt_expired_def
        pr_fresh_def pr_expired_def profile_alice_def link_alice_def store0_def
        expired_refresh_token_def orphan_refresh_token_def bob_refresh_token_def
        alice_access_token_def jwt_verify_def or_default_def)
  have u3: "findOne_user_by_id store0 ''nobody'' = None"
    by (simp add: env_default_def sys0_def alice_def bob_def carol_def vt_expired_def
        pr_fresh_def pr_expired_def profile_alice_def link_alice_def store0_def
        expired_refresh_token_def orphan_refresh_token_def bob_refresh_token_def
        alice_access_token_def findOne_user_by_id_def)
  have k: "''your-secret-key'' \<noteq> or_default (JWT_REFRESH_SECRET env_default) ''refresh-secret''"
    by (simp add: env_default_def or_default_def)
  show ?thesis
    using refreshTokens_failures_collapse
            [where sys = sys0 and rt = expired_refresh_token and env = env_default
               and e = TokenExpiredError and st = store0]
          refreshTokens_failures_collapse
            [where sys = sys0 and rt = bob_refresh_token and env = env_default and st = store0
               and decoded = "\<lparr>TokenPayload.id = ''u2'', TokenPayload.email = None,
                               TokenPayload.role = None, TokenPayload.iat = 900,
                               TokenPayload.exp = 2000\<rparr>"
               and user = "unselect_password bob"]
          refreshTokens_failures_collapse
            [where sys = sys0 and rt = orphan_refresh_token and env = env_default and st = store0
               and decoded = "\<lparr>TokenPayload.id = ''nobody'', TokenPayload.email = None,
                               TokenPayload.role = None, TokenPayload.iat = 900,
                               TokenPayload.exp = 2000\<rparr>"
               and k = "''your-secret-key''"
               and p = "\<lparr>TokenPayload.id = ''u1'', TokenPayload.email = Some ''alice@x.com'',
                         TokenPayload.role = Some STUDENT, TokenPayload.iat = 900,
                         TokenPayload.exp = 2000\<rparr>"]
          v1 v2 u2 v3 u3 k
    by (simp add: alice_access_token_def)
qed

text \<open>
  The claim as stated fails: a malformed token, an expired token and a token of a user
  that does not exist are three causes inside the \<^verbatim>\<open>try\<close> block, and one result
  outside it.
\<close>

theorem refreshTokens_causes_are_not_distinguished:
  "refreshTokens_try env_default sys0 store0 (Malformed ''garbage'')
     = Inl (JwtFailure JsonWebTokenError)
   \<and> refreshTokens_try env_default sys0 store0 expired_refresh_token
     = Inl (JwtFailure TokenExpiredError)
   \<and> refreshTokens_try env_default sys0 store0 orphan_refresh_token = Inl UserNotFound
   \<and> refreshTokens env_default sys0 store0 (Malformed ''garbage'')
     = refreshTokens env_default sys0 store0 expired_refresh_token
   \<and> refreshTokens env_default sys0 store0 expired_refresh_token
     = refreshTokens env_default sys0 store0 orphan_refresh_token
   \<and> controller_refreshToken env_default sys0 store0 (Malformed ''garbage'')
     = controller_refreshToken env_default sys0 store0 expired_refresh_token
   \<and> controller_refreshToken env_default sys0 store0 expired_refresh_token
     = controller_refreshToken env_default sys0 store0 orphan_refresh_token"
  by (simp add: env_default_def sys0_def alice_def bob_def carol_def vt_expired_def
        pr_fresh_def pr_expired_def profile_alice_def link_alice_def store0_def
        expired_refresh_token_def orphan_refresh_token_def refreshTokens_def refreshTokens_try_def controller_refreshToken_def
      jwt_verify_def or_default_def findOne_user_by_id_def)

lemma refreshTokens_content:
  assumes v: "jwt_verify (clock sys) rt (or_default (JWT_REFRESH_SECRET env) ''refresh-secret'')
             = Inr decoded"
    and u: "findOne_user_by_id st (TokenPayload.id decoded) = Some user"
  shows "refreshTokens env sys st rt
           = Inr \<lparr>AuthTokens.accessToken =
                    Signed (or_default (JWT_SECRET env) ''your-secret-key'')
                      \<lparr>TokenPayload.id = TokenPayload.id decoded,
                       TokenPayload.email = Some (User.email user),
                       TokenPayload.role = Some (User.role user),
                       TokenPayload.iat = clock sys div 1000,
                       TokenPayload.exp = clock sys div 1000
                         + int (case JWT_EXPIRES_IN env of None \<Rightarrow> 3600 | Some n \<Rightarrow> n)\<rparr>,
                  AuthTokens.refreshToken =
                    Signed (or_default (JWT_REFRESH_SECRET env) ''refresh-secret'')
                      \<lparr>TokenPayload.id = TokenPayload.id decoded,
                       TokenPayload.email = None, TokenPayload.role = None,
                       TokenPayload.iat = clock sys div 1000,
                       TokenPayload.exp = clock sys div 1000
                         + int (case JWT_REFRESH_EXPIRES_IN env of
                                  None \<Rightarrow> 604800 | Some n \<Rightarrow> n)\<rparr>,
                  AuthTokens.expiresIn =
                    (case JWT_EXPIRES_IN_SECONDS env of None \<Rightarrow> 3600 | Some n \<Rightarrow> n)\<rparr>"
  using v u findOne_user_by_id_sound[OF u]
  by (simp add: refreshTokens_def refreshTokens_try_def generateTokens_def jwt_sign_def)

lemma refreshTokens_again:
  assumes v: "jwt_verify (clock sys) rt (or_default (JWT_REFRESH_SECRET env) ''refresh-secret'')
             = Inr decoded"
    and u: "findOne_user_by_id st (TokenPayload.id decoded) = Some user"
    and life: "0 < (case JWT_REFRESH_EXPIRES_IN env of None \<Rightarrow> 604800 | Some n \<Rightarrow> n)"
  shows "refreshTokens env sys st
           (AuthTokens.refreshToken (projr (refreshTokens env sys st rt)))
         = refreshTokens env sys st rt"
  using refreshTokens_content[OF v u] u life findOne_user_by_id_sound[OF u]
  by (simp add: refreshTokens_def refreshTokens_try_def jwt_verify_def generateTokens_def
      jwt_sign_def split: option.splits)

lemma refreshTokens_flags:
  assumes v: "jwt_verify (clock sys) rt (or_default (JWT_REFRESH_SECRET env) ''refresh-secret'')
             = Inr decoded"
    and u: "findOne_user_by_id st (TokenPayload.id decoded) = Some user"
    and u': "findOne_user_by_id st' (TokenPayload.id decoded) = Some user'"
    and e: "User.email user' = User.email user" and r: "User.role user' = User.role user"
  shows "refreshTokens env sys st' rt = refreshTokens env sys st rt"
  using refreshTokens_content[OF v u] refreshTokens_content[OF v u'] e r by simp

text \<open>
  C6. For a refresh token that verifies and whose user exists, \<^verbatim>\<open>refreshTokens\<close>
  returns a newly signed pair and the endpoint answers 200, whatever the user's
  \<open>isLocked\<close> and \<open>isActive\<close> flags are. The pair is the access token signed now with
  the access secret for the user's id, email and role, and the refresh token signed
  now with the refresh secret for the user's id, each with its lifetime; with a
  positive refresh lifetime the new refresh token is itself accepted for a further
  refresh. The result is the same for any store in which the user has the same email
  and role, whatever the flags there. When the user is locked or inactive, the
  \<^verbatim>\<open>authenticate\<close> middleware answers a request carrying a valid access token of the
  same user with 403.
\<close>

theorem refresh_ignores_account_state:
  assumes "jwt_verify (clock sys) rt (or_default (JWT_REFRESH_SECRET env) ''refresh-secret'')
             = Inr decoded"
    and "findOne_user_by_id st (TokenPayload.id decoded) = Some user"
    and "User.isLocked user \<or> \<not> User.isActive user"
    and "jwt_verify (clock sys) at (or_default (JWT_SECRET env) ''your-secret-key'')
             = Inr decoded'"
    and "TokenPayload.id decoded' = TokenPayload.id decoded"
  shows "refreshTokens env sys st rt = Inr (generateTokens env (clock sys) user)
       \<and> controller_refreshToken env sys st rt
           = \<lparr>status = 200, body = Tokens (generateTokens env (clock sys) user)\<rparr>
       \<and> isl (authenticate env sys st (Some (TwoParts ''Bearer'' at)))
       \<and> status (projl (authenticate env sys st (Some (TwoParts ''Bearer'' at)))) = 403
       \<and> refreshTokens env sys st rt
           = Inr \<lparr>AuthTokens.accessToken =
                    Signed (or_default (JWT_SECRET env) ''your-secret-key'')
                      \<lparr>TokenPayload.id = TokenPayload.id decoded,
                       TokenPayload.email = Some (User.email user),
                       TokenPayload.role = Some (User.role user),
                       TokenPayload.iat = clock sys div 1000,
                       TokenPayload.exp = clock sys div 1000
                         + int (case JWT_EXPIRES_IN env of None \<Rightarrow> 3600 | Some n \<Rightarrow> n)\<rparr>,
                  AuthTokens.refreshToken =
                    Signed (or_default (JWT_REFRESH_SECRET env) ''refresh-secret'')
                      \<lparr>TokenPayload.id = TokenPayload.id decoded,
                       TokenPayload.email = None, TokenPayload.role = None,
                       TokenPayload.iat = clock sys div 1000,
                       TokenPayload.exp = clock sys div 1000
                         + int (case JWT_REFRESH_EXPIRES_IN env of
                                  None \<Rightarrow> 604800 | Some n \<Rightarrow> n)\<rparr>,
                  AuthTokens.expiresIn =
                    (case JWT_EXPIRES_IN_SECONDS env of None \<Rightarrow> 3600 | Some n \<Rightarrow> n)\<rparr>
       \<and> (0 < (case JWT_REFRESH_EXPIRES_IN env of None \<Rightarrow> 604800 | Some n \<Rightarrow> n)
            \<longrightarrow> refreshTokens env sys st
                    (AuthTokens.refreshToken (projr (refreshTokens env sys st rt)))
                  = refreshTokens env sys st rt)
       \<and> (findOne_user_by_id st' (TokenPayload.id decoded) = Some user'
            \<and> User.email user' = User.email user \<and> User.role user' = User.role user
            \<longrightarrow> refreshTokens env sys st' rt = refreshTokens env sys st rt)"
proof -
  have old: "refreshTokens env sys st rt = Inr (generateTokens env (clock sys) user)
       \<and> controller_refreshToken env sys st rt
           = \<lparr>status = 200, body = Tokens (generateTokens env (clock sys) user)\<rparr>
       \<and> isl (authenticate env sys st (Some (TwoParts ''Bearer'' at)))
       \<and> status (projl (authenticate env sys st (Some (TwoParts ''Bearer'' at)))) = 403"
    using assms
    by (auto simp: refreshTokens_def refreshTokens_try_def controller_refreshToken_def
        authenticate_def)
  have again: "0 < (case JWT_REFRESH_EXPIRES_IN env of None \<Rightarrow> 604800 | Some n \<Rightarrow> n)
            \<longrightarrow> refreshTokens env sys st
                    (AuthTokens.refreshToken (projr (refreshTokens env sys st rt)))
                  = refreshTokens env sys st rt"
    using refreshTokens_again[OF assms(1) assms(2)] by blast
  have flags: "findOne_user_by_id st' (TokenPayload.id decoded) = Some user'
            \<and> User.email user' = User.email user \<and> User.role user' = User.role user
            \<longrightarrow> refreshTokens env sys st' rt = refreshTokens env sys st rt"
    using refreshTokens_flags[OF assms(1) assms(2)] by blast
  show ?thesis
    using old refreshTokens_content[OF assms(1) assms(2)] again flags by blast
qed

theorem refresh_ignores_account_state_witness:
  "jwt_verify (clock sys0) bob_refresh_token
      (or_default (JWT_REFRESH_SECRET env_default) ''refresh-secret'')
     = Inr \<lparr>TokenPayload.id = ''u2'', TokenPayload.email = None, TokenPayload.role = None,
            TokenPayload.iat = 900, TokenPayload.exp = 2000\<rparr>
   \<and> findOne_user_by_id store0 ''u2'' = Some (unselect_password bob)
   \<and> User.isLocked (unselect_password bob)
   \<and> jwt_verify (clock sys0) bob_access_token
        (or_default (JWT_SECRET env_default) ''your-secret-key'')
     = Inr \<lparr>TokenPayload.id = ''u2'', TokenPayload.email = Some ''bob@x.com'',
            TokenPayload.role = Some STUDENT, TokenPayload.iat = 900, TokenPayload.exp = 2000\<rparr>
   \<and> refreshTokens env_default sys0 store0 bob_refresh_token
       = Inr (generateTokens env_default (clock sys0) (unselect_password bob))
   \<and> controller_refreshToken env_default sys0 store0 bob_refresh_token
       = \<lparr>status = 200,
          body = Tokens (generateTokens env_default (clock sys0) (unselect_password bob))\<rparr>
   \<and> status (projl (authenticate env_default sys0 store0
                      (Some (TwoParts ''Bearer'' bob_access_token)))) = 403
   \<and> refreshTokens env_default sys0 store0 bob_refresh_token
       = Inr \<lparr>AuthTokens.accessToken =
                Signed ''your-secret-key''
                  \<lparr>TokenPayload.id = ''u2'', TokenPayload.email = Some ''bob@x.com'',
                   TokenPayload.role = Some STUDENT, TokenPayload.iat = 1000,
                   TokenPayload.exp = 4600\<rparr>,
              AuthTokens.refreshToken =
                Signed ''refresh-secret''
                  \<lparr>TokenPayload.id = ''u2'', TokenPayload.email = None,
                   TokenPayload.role = None, TokenPayload.iat = 1000,
                   TokenPayload.exp = 605800\<rparr>,
              AuthTokens.expiresIn = 3600\<rparr>
   \<and> refreshTokens env_default sys0 store0
        (Signed ''refresh-secret''
           \<lparr>TokenPayload.id = ''u2'', TokenPayload.email = None, TokenPayload.role = None,
            TokenPayload.iat = 1000, TokenPayload.exp = 605800\<rparr>)
       = refreshTokens env_default sys0 store0 bob_refresh_token
   \<and> findOne_user_by_id bob_unlocked_store ''u2''
       = Some (unselect_password (bob\<lparr>User.isLocked := False\<rparr>))
   \<and> \<not> User.isLocked (unselect_password (bob\<lparr>User.isLocked := False\<rparr>))
   \<and> refreshTokens env_default sys0 bob_unlocked_store bob_refresh_token
       = refreshTokens env_default sys0 store0 bob_refresh_token"
proof -
  have v1: "jwt_verify (clock sys0) bob_refresh_token
      (or_default (JWT_REFRESH_SECRET env_default) ''refresh-secret'')
     = Inr \<lparr>TokenPayload.id = ''u2'', TokenPayload.email = None, TokenPayload.role = None,
            TokenPayload.iat = 900, TokenPayload.exp = 2000\<rparr>"
    by (simp add: env_default_def sys0_def bob_refresh_token_def jwt_verify_def or_default_def)
  have u2: "findOne_user_by_id store0
              (TokenPayload.id \<lparr>TokenPayload.id = ''u2'', TokenPayload.email = None,
                 TokenPayload.role = None, TokenPayload.iat = 900, TokenPayload.exp = 2000\<rparr>)
            = Some (unselect_password bob)"
    by (simp add: store0_def alice_def bob_def carol_def findOne_user_by_id_def)
  have l: "User.isLocked (unselect_password bob) \<or> \<not> User.isActive (unselect_password bob)"
    by (simp add: bob_def unselect_password_def)
  have v2: "jwt_verify (clock sys0) bob_access_token
        (or_default (JWT_SECRET env_default) ''your-secret-key'')
     = Inr \<lparr>TokenPayload.id = ''u2'', TokenPayload.email = Some ''bob@x.com'',
            TokenPayload.role = Some STUDENT, TokenPayload.iat = 900, TokenPayload.exp = 2000\<rparr>"
    by (simp add: env_default_def sys0_def bob_access_token_def jwt_verify_def or_default_def)
  have same: "TokenPayload.id \<lparr>TokenPayload.id = ''u2'', TokenPayload.email = Some ''bob@x.com'',
            TokenPayload.role = Some STUDENT, TokenPayload.iat = 900, TokenPayload.exp = 2000\<rparr>
      = TokenPayload.id \<lparr>TokenPayload.id = ''u2'', TokenPayload.email = None,
                 TokenPayload.role = None, TokenPayload.iat = 900, TokenPayload.exp = 2000\<rparr>"
    by simp
  have lk: "User.isLocked (unselect_password bob)"
    by (simp add: bob_def unselect_password_def)
  have vals: "or_default (JWT_SECRET env_default) ''your-secret-key'' = ''your-secret-key''
      \<and> or_default (JWT_REFRESH_SECRET env_default) ''refresh-secret'' = ''refresh-secret''
      \<and> JWT_EXPIRES_IN env_default = None \<and> JWT_REFRESH_EXPIRES_IN env_default = None
      \<and> JWT_EXPIRES_IN_SECONDS env_default = None \<and> clock sys0 = 1000000
      \<and> User.email (unselect_password bob) = ''bob@x.com''
      \<and> User.role (unselect_password bob) = STUDENT
      \<and> User.id (unselect_password bob) = ''u2''"
    by (simp add: env_default_def sys0_def bob_def unselect_password_def or_default_def)
  have o: "findOne_user_by_id bob_unlocked_store ''u2''
       = Some (unselect_password (bob\<lparr>User.isLocked := False\<rparr>))
     \<and> \<not> User.isLocked (unselect_password (bob\<lparr>User.isLocked := False\<rparr>))
     \<and> User.email (unselect_password (bob\<lparr>User.isLocked := False\<rparr>))
         = User.email (unselect_password bob)
     \<and> User.role (unselect_password (bob\<lparr>User.isLocked := False\<rparr>))
         = User.role (unselect_password bob)"
    by (simp add: bob_unlocked_store_def store0_def alice_def bob_def carol_def
        findOne_user_by_id_def unselect_password_def)
  note T = refresh_ignores_account_state
            [OF v1 u2 l v2 same, where st' = bob_unlocked_store
               and user' = "unselect_password (bob\<lparr>User.isLocked := False\<rparr>)"]
  note T5 = T [THEN conjunct2, THEN conjunct2, THEN conjunct2, THEN conjunct2]
  have c: "refreshTokens env_default sys0 store0 bob_refresh_token
       = Inr \<lparr>AuthTokens.accessToken =
                Signed ''your-secret-key''
                  \<lparr>TokenPayload.id = ''u2'', TokenPayload.email = Some ''bob@x.com'',
                   TokenPayload.role = Some STUDENT, TokenPayload.iat = 1000,
                   TokenPayload.exp = 4600\<rparr>,
              AuthTokens.refreshToken =
                Signed ''refresh-secret''
                  \<lparr>TokenPayload.id = ''u2'', TokenPayload.email = None,
                   TokenPayload.role = None, TokenPayload.iat = 1000,
                   TokenPayload.exp = 605800\<rparr>,
              AuthTokens.expiresIn = 3600\<rparr>"
    using T5 [THEN conjunct1] vals by simp
  have a: "refreshTokens env_default sys0 store0
        (Signed ''refresh-secret''
           \<lparr>TokenPayload.id = ''u2'', TokenPayload.email = None, TokenPayload.role = None,
            TokenPayload.iat = 1000, TokenPayload.exp = 605800\<rparr>)
       = refreshTokens env_default sys0 store0 bob_refresh_token"
  proof -
    have "refreshTokens env_default sys0 store0
            (AuthTokens.refreshToken
               (projr (refreshTokens env_default sys0 store0 bob_refresh_token)))
          = refreshTokens env_default sys0 store0 bob_refresh_token"
      using T5 [THEN conjunct2, THEN conjunct1] vals by simp
    moreover have "AuthTokens.refreshToken
               (projr (refreshTokens env_default sys0 store0 bob_refresh_token))
        = Signed ''refresh-secret''
           \<lparr>TokenPayload.id = ''u2'', TokenPayload.email = None, TokenPayload.role = None,
            TokenPayload.iat = 1000, TokenPayload.exp = 605800\<rparr>"
      by (simp add: c)
    ultimately show ?thesis by simp
  qed
  have f: "refreshTokens env_default sys0 bob_unlocked_store bob_refresh_token
       = refreshTokens env_default sys0 store0 bob_refresh_token"
    using T5 [THEN conjunct2, THEN conjunct2] o by simp
  have g: "refreshTokens env_default sys0 store0 bob_refresh_token
       = Inr (generateTokens env_default (clock sys0) (unselect_password bob))
   \<and> controller_refreshToken env_default sys0 store0 bob_refresh_token
       = \<lparr>status = 200,
          body = Tokens (generateTokens env_default (clock sys0) (unselect_password bob))\<rparr>
   \<and> status (projl (authenticate env_default sys0 store0
                      (Some (TwoParts ''Bearer'' bob_access_token)))) = 403"
    using T by blast
  have u2': "findOne_user_by_id store0 ''u2'' = Some (unselect_password bob)"
    using u2 by simp
  show ?thesis
    using v1 u2' v2 lk o c a f g by blast
qed

section \<open>Social login with an existing link\<close>

lemma update_user_lastLogin:
  assumes row: "find (\<lambda>r. User.id r = i) (users st) = Some row"
  shows "find (\<lambda>r. User.id r = i)
           (users (snd (update_user s ((unselect_password row)\<lparr>User.lastLogin := Some c\<rparr>) st)))
           = Some (row\<lparr>User.lastLogin := Some c\<rparr>)
       \<and> filter (\<lambda>r. User.id r \<noteq> i)
           (users (snd (update_user s ((unselect_password row)\<lparr>User.lastLogin := Some c\<rparr>) st)))
           = filter (\<lambda>r. User.id r \<noteq> i) (users st)
       \<and> length (users (snd (update_user s ((unselect_password row)\<lparr>User.lastLogin := Some c\<rparr>) st)))
           = length (users st)"
proof -
  have idr: "User.id row = i" using row by (auto simp: find_Some_iff)
  let ?u = "(unselect_password row)\<lparr>User.lastLogin := Some c\<rparr>"
  have m: "merge_user row ?u = row\<lparr>User.lastLogin := Some c\<rparr>"
    by (simp add: merge_user_def unselect_password_def)
  have h: "hashPassword s ?u = ?u"
    by (simp add: hashPassword_def unselect_password_def)
  have f: "find (\<lambda>r. User.id r = User.id row) (users st) = Some row"
    using row idr by simp
  show ?thesis
  proof (cases "row\<lparr>User.lastLogin := Some c\<rparr> = row")
    case True
    then show ?thesis using f idr m row
      by (simp add: update_user_def unselect_password_def)
  next
    case False
    have fm: "find (\<lambda>r. User.id r = i)
                (map (\<lambda>r. if User.id r = i then row\<lparr>User.lastLogin := Some c\<rparr> else r) (users st))
              = Some (row\<lparr>User.lastLogin := Some c\<rparr>)"
      using row idr by (simp add: find_map_other)
    have fl: "filter (\<lambda>r. User.id r \<noteq> i)
                (map (\<lambda>r. if User.id r = i then row\<lparr>User.lastLogin := Some c\<rparr> else r) (users st))
              = filter (\<lambda>r. User.id r \<noteq> i) (users st)"
      using idr by (simp add: filter_map_other)
    show ?thesis using False f idr m h fm fl
      by (simp add: update_user_def unselect_password_def Let_def cong: if_cong)
  qed
qed

text \<open>
  C9, as the code has it. When a social account exists for the provider and the
  profile's id, and its user exists, \<^verbatim>\<open>socialAuth\<close> uses that user, sets its
  \<^verbatim>\<open>lastLogin\<close>, returns it without password together with a newly signed pair and
  \<^verbatim>\<open>isNewUser = false\<close>, and leaves the table of social accounts as it was: the
  link's stored access token and profile are not touched. The new \<^verbatim>\<open>lastLogin\<close> is
  saved: in the resulting store the user's row is the old row with \<^verbatim>\<open>lastLogin\<close> set
  to the time of the call, loading the user gives the returned user, and every other
  row of the users table, the verification tokens, the password resets and the
  outbox are unchanged.
\<close>

theorem socialAuth_existing_link:
  assumes prof: "SocialAuthDto.profile d = Some prof"
    and link: "find (\<lambda>a. SocialAccount.provider a = SocialAuthDto.provider d
                         \<and> SocialAccount.providerId a = Profile.id prof)
                 (social_accounts st) = Some link"
    and user: "findOne_user_by_id st (SocialAccount.userId link) = Some user"
  shows "fst (socialAuth env sys st d)
           = Inr (user\<lparr>User.lastLogin := Some (clock sys)\<rparr>,
                  generateTokens env (clock sys) (user\<lparr>User.lastLogin := Some (clock sys)\<rparr>),
                  False)
       \<and> User.id user = SocialAccount.userId link
       \<and> social_accounts (snd (socialAuth env sys st d)) = social_accounts st
       \<and> find (\<lambda>r. User.id r = SocialAccount.userId link) (users (snd (socialAuth env sys st d)))
           = map_option (\<lambda>r. r\<lparr>User.lastLogin := Some (clock sys)\<rparr>)
               (find (\<lambda>r. User.id r = SocialAccount.userId link) (users st))
       \<and> findOne_user_by_id (snd (socialAuth env sys st d)) (SocialAccount.userId link)
           = Some (user\<lparr>User.lastLogin := Some (clock sys)\<rparr>)
       \<and> filter (\<lambda>r. User.id r \<noteq> SocialAccount.userId link) (users (snd (socialAuth env sys st d)))
           = filter (\<lambda>r. User.id r \<noteq> SocialAccount.userId link) (users st)
       \<and> length (users (snd (socialAuth env sys st d))) = length (users st)
       \<and> verification_tokens (snd (socialAuth env sys st d)) = verification_tokens st
       \<and> password_resets (snd (socialAuth env sys st d)) = password_resets st
       \<and> outbox (snd (socialAuth env sys st d)) = outbox st"
proof -
  let ?i = "SocialAccount.userId link"
  obtain row where row: "find (\<lambda>r. User.id r = ?i) (users st) = Some row"
    and urow: "user = unselect_password row"
    using user by (auto simp: findOne_user_by_id_def)
  have pw: "User.password user = None" and uid: "User.id user = ?i"
    using findOne_user_by_id_sound[OF user] by simp_all
  let ?u = "user\<lparr>User.lastLogin := Some (clock sys)\<rparr>"
  have upd: "fst (update_user (salt2 sys) ?u st) = ?u"
    using pw by (simp add: update_user_def hashPassword_def Let_def split: option.splits)
  have fin: "socialAuth env sys st d = socialAuth_finish env sys st user False"
    using prof link user by (simp add: socialAuth_def)
  have sndf: "snd (socialAuth_finish env sys st user False) = snd (update_user (salt2 sys) ?u st)"
    by (cases "update_user (salt2 sys) ?u st") (simp add: socialAuth_finish_def)
  have res: "fst (socialAuth_finish env sys st user False)
           = Inr (?u, generateTokens env (clock sys) ?u, False)"
    using upd pw
    by (cases "update_user (salt2 sys) ?u st")
       (simp add: socialAuth_finish_def toResponseObject_def)
  have stored: "find (\<lambda>r. User.id r = ?i) (users (snd (update_user (salt2 sys) ?u st)))
           = Some (row\<lparr>User.lastLogin := Some (clock sys)\<rparr>)
       \<and> filter (\<lambda>r. User.id r \<noteq> ?i) (users (snd (update_user (salt2 sys) ?u st)))
           = filter (\<lambda>r. User.id r \<noteq> ?i) (users st)
       \<and> length (users (snd (update_user (salt2 sys) ?u st))) = length (users st)"
    using update_user_lastLogin[OF row, of "salt2 sys" "clock sys"] urow by simp
  have loaded: "findOne_user_by_id (snd (update_user (salt2 sys) ?u st)) ?i = Some ?u"
    using stored urow by (simp add: findOne_user_by_id_def unselect_password_def)
  show ?thesis
    using fin sndf res uid stored loaded row by simp
qed

theorem socialAuth_existing_link_witness:
  "SocialAuthDto.profile social_dto
     = Some (profile_alice\<lparr>Profile.name := Some ''Alice Pleasance''\<rparr>)
   \<and> find (\<lambda>a. SocialAccount.provider a = SocialAuthDto.provider social_dto
                \<and> SocialAccount.providerId a
                    = Profile.id (profile_alice\<lparr>Profile.name := Some ''Alice Pleasance''\<rparr>))
        (social_accounts store0) = Some link_alice
   \<and> findOne_user_by_id store0 (SocialAccount.userId link_alice) = Some (unselect_password alice)
   \<and> fst (socialAuth env_default sys0 store0 social_dto)
       = Inr ((unselect_password alice)\<lparr>User.lastLogin := Some (clock sys0)\<rparr>,
              generateTokens env_default (clock sys0)
                ((unselect_password alice)\<lparr>User.lastLogin := Some (clock sys0)\<rparr>),
              False)
   \<and> social_accounts (snd (socialAuth env_default sys0 store0 social_dto))
       = social_accounts store0
   \<and> User.lastLogin alice = None
   \<and> find (\<lambda>r. User.id r = ''u1'')
        (users (snd (socialAuth env_default sys0 store0 social_dto)))
       = Some (alice\<lparr>User.lastLogin := Some 1000000\<rparr>)
   \<and> findOne_user_by_id (snd (socialAuth env_default sys0 store0 social_dto)) ''u1''
       = Some ((unselect_password alice)\<lparr>User.lastLogin := Some 1000000\<rparr>)
   \<and> filter (\<lambda>r. User.id r \<noteq> ''u1'')
        (users (snd (socialAuth env_default sys0 store0 social_dto))) = [bob, carol]
   \<and> length (users (snd (socialAuth env_default sys0 store0 social_dto))) = 3
   \<and> verification_tokens (snd (socialAuth env_default sys0 store0 social_dto)) = [vt_expired]
   \<and> password_resets (snd (socialAuth env_default sys0 store0 social_dto))
       = [pr_fresh, pr_expired]
   \<and> outbox (snd (socialAuth env_default sys0 store0 social_dto)) = []"
proof -
  have h1: "SocialAuthDto.profile social_dto
     = Some (profile_alice\<lparr>Profile.name := Some ''Alice Pleasance''\<rparr>)"
    by (simp add: social_dto_def)
  have h2: "find (\<lambda>a. SocialAccount.provider a = SocialAuthDto.provider social_dto
                \<and> SocialAccount.providerId a
                    = Profile.id (profile_alice\<lparr>Profile.name := Some ''Alice Pleasance''\<rparr>))
        (social_accounts store0) = Some link_alice"
    by (simp add: env_default_def sys0_def alice_def bob_def carol_def vt_expired_def
        pr_fresh_def pr_expired_def profile_alice_def link_alice_def store0_def
        social_dto_def)
  have h3: "findOne_user_by_id store0 (SocialAccount.userId link_alice)
              = Some (unselect_password alice)"
    by (simp add: env_default_def sys0_def alice_def bob_def carol_def vt_expired_def
        pr_fresh_def pr_expired_def profile_alice_def link_alice_def store0_def
        social_dto_def findOne_user_by_id_def)
  have e: "SocialAccount.userId link_alice = ''u1'' \<and> clock sys0 = 1000000
      \<and> User.lastLogin alice = None
      \<and> find (\<lambda>r. User.id r = ''u1'') (users store0) = Some alice
      \<and> filter (\<lambda>r. User.id r \<noteq> ''u1'') (users store0) = [bob, carol]
      \<and> length (users store0) = 3
      \<and> verification_tokens store0 = [vt_expired]
      \<and> password_resets store0 = [pr_fresh, pr_expired]
      \<and> outbox store0 = []"
    by (simp add: sys0_def alice_def bob_def carol_def link_alice_def store0_def)
  show ?thesis
    using socialAuth_existing_link[OF h1 h2 h3, of env_default sys0] h1 h2 h3 e by simp
qed

text \<open>
  The claim as stated fails: after a social login through an existing link with a new
  provider token and a changed profile, the stored link still holds the old access
  token and the old profile.
\<close>

theorem socialAuth_does_not_update_link:
  "social_accounts (snd (socialAuth env_default sys0 store0 social_dto)) = [link_alice]
   \<and> SocialAccount.accessToken link_alice = Some ''old-token''
   \<and> SocialAccount.accessToken link_alice \<noteq> Some (SocialAuthDto.token social_dto)
   \<and> Some (SocialAccount.profile link_alice) \<noteq> SocialAuthDto.profile social_dto"
  by (simp add: env_default_def sys0_def alice_def bob_def carol_def vt_expired_def
        pr_fresh_def pr_expired_def profile_alice_def link_alice_def store0_def
        social_dto_def socialAuth_def socialAuth_finish_def findOne_user_by_id_def
      unselect_password_def update_user_def merge_user_def hashPassword_def Let_def)

section \<open>No password in a response\<close>

lemma password_key_iff:
  "''password'' \<in> set (user_json_keys u) \<longleftrightarrow> User.password u \<noteq> None"
  by (cases "User.password u"; cases "User.lastLogin u") (simp_all add: user_json_keys_def)

lemma login_user_without_password:
  "fst (login env sys st d) = Inr (u, t) \<Longrightarrow> User.password u = None"
  by (auto simp: login_def toResponseObject_def
      split: option.splits if_splits sum.splits prod.splits)

lemma socialAuth_finish_without_password:
  "fst (socialAuth_finish env sys st user n) = Inr (u, t, b) \<Longrightarrow> User.password u = None"
  by (auto simp: socialAuth_finish_def toResponseObject_def split: prod.splits)

lemma socialAuth_user_without_password:
  "fst (socialAuth env sys st d) = Inr (u, t, b) \<Longrightarrow> User.password u = None"
  by (auto simp: socialAuth_def
      split: option.splits sum.splits prod.splits
      dest: socialAuth_finish_without_password)

lemma authenticate_user_without_password:
  "authenticate env sys st h = Inr (u, t) \<Longrightarrow> User.password u = None"
  by (auto simp: authenticate_def
      split: option.splits AuthorizationHeader.splits if_splits sum.splits JwtError.splits
      dest: findOne_user_by_id_sound)

lemma register_response_without_password:
  "no_password_field (fst (controller_register isEmail env sys st rd))"
  by (cases "register env sys st rd")
     (auto simp: controller_register_def no_password_field_def body_user_def
        validation_failed_def error_response_def toResponseObject_def password_key_iff
        split: sum.splits Error.splits)

lemma login_response_without_password:
  "no_password_field (fst (controller_login isEmail env sys st ld))"
  using login_user_without_password[of env sys st ld]
  by (cases "login env sys st ld")
     (auto simp: controller_login_def no_password_field_def body_user_def
        validation_failed_def password_key_iff split: sum.splits)

lemma socialAuth_response_without_password:
  "no_password_field (fst (controller_socialAuth env sys st param tok prof))"
proof (cases "provider_of_param param")
  case None
  then show ?thesis
    by (simp add: controller_socialAuth_def no_password_field_def body_user_def)
next
  case (Some p)
  let ?d = "\<lparr>SocialAuthDto.provider = p, SocialAuthDto.token = tok,
             SocialAuthDto.profile = prof\<rparr>"
  show ?thesis
    using Some socialAuth_user_without_password[of env sys st ?d]
    by (cases "socialAuth env sys st ?d")
       (auto simp: controller_socialAuth_def no_password_field_def body_user_def
          error_response_def password_key_iff split: sum.splits Error.splits)
qed

lemma me_response_without_password:
  "no_password_field (GET_auth_me env sys st h)"
proof (cases "authenticate env sys st h")
  case (Inl r)
  then have "body_user (body r) = None"
    by (auto simp: authenticate_def body_user_def
        split: option.splits AuthorizationHeader.splits if_splits sum.splits JwtError.splits)
  with Inl show ?thesis by (simp add: GET_auth_me_def no_password_field_def)
next
  case (Inr ut)
  then show ?thesis
    using authenticate_user_without_password[of env sys st h "fst ut" "snd ut"]
    by (cases ut)
       (simp add: GET_auth_me_def getCurrentUser_def no_password_field_def body_user_def
          password_key_iff)
qed

text \<open>
  C8. The responses of register, login, social authentication and \<^verbatim>\<open>GET /auth/me\<close>
  never write a \<^verbatim>\<open>password\<close> key for the user they carry: the first three pass the
  user through \<^verbatim>\<open>toResponseObject\<close>, and the middleware loads the user without the
  password column.
\<close>

theorem user_responses_have_no_password:
  "no_password_field (fst (controller_register isEmail env sys st rd))
   \<and> no_password_field (fst (controller_login isEmail env sys st ld))
   \<and> no_password_field (fst (controller_socialAuth env sys st param tok prof))
   \<and> no_password_field (GET_auth_me env sys st h)"
  using register_response_without_password login_response_without_password
    socialAuth_response_without_password me_response_without_password
  by blast

theorem user_responses_have_no_password_witness:
  "body_user (body (fst (controller_register contains_at env_default sys0 store0 register_dave)))
     \<noteq> None
   \<and> status (fst (controller_register contains_at env_default sys0 store0 register_dave)) = 201
   \<and> no_password_field (fst (controller_register contains_at env_default sys0 store0 register_dave))
   \<and> body_user (body (fst (controller_login contains_at env_default sys0 store0 login_alice)))
       \<noteq> None
   \<and> no_password_field (fst (controller_login contains_at env_default sys0 store0 login_alice))
   \<and> body_user (body (fst (controller_socialAuth env_default sys0 store0 ''google'' ''new-token''
                              (Some profile_alice)))) \<noteq> None
   \<and> no_password_field (fst (controller_socialAuth env_default sys0 store0 ''google'' ''new-token''
                              (Some profile_alice)))
   \<and> body_user (body (GET_auth_me env_default sys0 store0
                        (Some (TwoParts ''Bearer'' alice_access_token)))) \<noteq> None
   \<and> no_password_field (GET_auth_me env_default sys0 store0
                        (Some (TwoParts ''Bearer'' alice_access_token)))"
proof -
  have r: "body_user (body (fst (controller_register contains_at env_default sys0 store0
                                   register_dave))) \<noteq> None
      \<and> status (fst (controller_register contains_at env_default sys0 store0 register_dave)) = 201"
    by (simp add: env_default_def sys0_def alice_def bob_def carol_def vt_expired_def
        pr_fresh_def pr_expired_def profile_alice_def link_alice_def store0_def
        contains_at_def login_alice_def register_dave_def alice_access_token_def controller_register_def register_def valid_password_example
        findOne_user_by_email_def findOne_user_by_username_def insert_user_def hashPassword_def
        sendVerificationEmail_def new_VerificationToken_def generateToken_def body_user_def
        Let_def)
  have l: "body_user (body (fst (controller_login contains_at env_default sys0 store0
                                   login_alice))) \<noteq> None"
    by (simp add: env_default_def sys0_def alice_def bob_def carol_def vt_expired_def
        pr_fresh_def pr_expired_def profile_alice_def link_alice_def store0_def
        contains_at_def login_alice_def register_dave_def alice_access_token_def controller_login_def login_def comparePassword_def
        getOne_user_with_password_by_email_def update_user_def merge_user_def hashPassword_def
        body_user_def Let_def)
  have s: "body_user (body (fst (controller_socialAuth env_default sys0 store0 ''google''
                                   ''new-token'' (Some profile_alice)))) \<noteq> None"
    by (simp add: env_default_def sys0_def alice_def bob_def carol_def vt_expired_def
        pr_fresh_def pr_expired_def profile_alice_def link_alice_def store0_def
        contains_at_def login_alice_def register_dave_def alice_access_token_def controller_socialAuth_def provider_of_param_def socialAuth_def
        socialAuth_finish_def findOne_user_by_id_def unselect_password_def update_user_def
        merge_user_def hashPassword_def body_user_def Let_def)
  have m: "body_user (body (GET_auth_me env_default sys0 store0
                        (Some (TwoParts ''Bearer'' alice_access_token)))) \<noteq> None"
    by (simp add: env_default_def sys0_def alice_def bob_def carol_def vt_expired_def
        pr_fresh_def pr_expired_def profile_alice_def link_alice_def store0_def
        contains_at_def login_alice_def register_dave_def alice_access_token_def GET_auth_me_def authenticate_def
        getCurrentUser_def jwt_verify_def or_default_def findOne_user_by_id_def
        unselect_password_def body_user_def)
  show ?thesis
    using user_responses_have_no_password
            [of contains_at env_default sys0 store0 register_dave login_alice
                "''google''" "''new-token''" "Some profile_alice"
                "Some (TwoParts ''Bearer'' alice_access_token)"]
          r l s m
    by simp
qed

section \<open>Concurrent refreshes on the client\<close>













end
